theory Spec2Isabelle
  imports Complex_Main "HOL-Library.Sublist"
begin

section \<open>JavaScript values\<close>

text \<open>
  TypeScript types are erased at run time: what \<^verbatim>\<open>JSON.parse\<close> hands to the Gemini
  client is an arbitrary JSON value, and the client copies parts of it into its result
  unchanged. The model therefore works on run-time values. Numbers are rationals: the
  only thing the code asks of a number is whether it is zero. An object is its list of
  own properties, a missing property reads as \<open>Undefined\<close>.
\<close>

datatype jsvalue =
    Undefined
  | Null
  | Bool bool
  | Num rat
  | Str string
  | Arr "jsvalue list"
  | Obj "(string \<times> jsvalue) list"

text \<open>Errors are values. The payload is the error's \<^verbatim>\<open>message\<close>.\<close>

datatype error =
    Error string
  | TypeError string
  | SyntaxError string

fun message :: "error \<Rightarrow> string" where
  "message (Error m) = m"
| "message (TypeError m) = m"
| "message (SyntaxError m) = m"

text \<open>ToBoolean, as \<^verbatim>\<open>!x\<close>, \<^verbatim>\<open>x || y\<close> and \<^verbatim>\<open>if (x)\<close> apply it.\<close>

fun truthy :: "jsvalue \<Rightarrow> bool" where
  "truthy Undefined = False"
| "truthy Null = False"
| "truthy (Bool b) = b"
| "truthy (Num n) = (n \<noteq> 0)"
| "truthy (Str s) = (s \<noteq> [])"
| "truthy (Arr xs) = True"
| "truthy (Obj ps) = True"

text \<open>\<^verbatim>\<open>a || b\<close> on values (both operands here are free of effects).\<close>

definition or_else :: "jsvalue \<Rightarrow> jsvalue \<Rightarrow> jsvalue" where
  "or_else a b = (if truthy a then a else b)"

text \<open>
  \<^verbatim>\<open>v.k\<close> for the property names the code reads (none of them is defined on a
  prototype): reading a property of \<^verbatim>\<open>undefined\<close> or \<^verbatim>\<open>null\<close> throws a
  TypeError, an object yields its own property, every other value yields
  \<^verbatim>\<open>undefined\<close>.
\<close>

fun getProp :: "jsvalue \<Rightarrow> string \<Rightarrow> error + jsvalue" where
  "getProp Undefined k = Inl (TypeError (''Cannot read properties of undefined (reading '' @ k @ '')''))"
| "getProp Null k = Inl (TypeError (''Cannot read properties of null (reading '' @ k @ '')''))"
| "getProp (Obj ps) k = Inr (case map_of ps k of None \<Rightarrow> Undefined | Some v \<Rightarrow> v)"
| "getProp v k = Inr Undefined"

text \<open>\<^verbatim>\<open>v?.k\<close>: the optional chain stops at \<^verbatim>\<open>undefined\<close> and \<^verbatim>\<open>null\<close>.\<close>

fun optProp :: "jsvalue \<Rightarrow> string \<Rightarrow> jsvalue" where
  "optProp (Obj ps) k = (case map_of ps k of None \<Rightarrow> Undefined | Some v \<Rightarrow> v)"
| "optProp v k = Undefined"

text \<open>
  \<^verbatim>\<open>v?.[0]\<close>: the first element of an array, the first character of a string, the
  property \<^verbatim>\<open>"0"\<close> of an object.
\<close>

fun optIndex0 :: "jsvalue \<Rightarrow> jsvalue" where
  "optIndex0 (Arr []) = Undefined"
| "optIndex0 (Arr (x # xs)) = x"
| "optIndex0 (Str []) = Undefined"
| "optIndex0 (Str (c # s)) = Str [c]"
| "optIndex0 (Obj ps) = (case map_of ps ''0'' of None \<Rightarrow> Undefined | Some v \<Rightarrow> v)"
| "optIndex0 v = Undefined"

text \<open>
  \<^verbatim>\<open>xs.map(f)\<close> with a callback that may throw: the elements are visited in
  order and the first exception ends the loop.
\<close>

fun mapE :: "('a \<Rightarrow> error + 'b) \<Rightarrow> 'a list \<Rightarrow> error + 'b list" where
  "mapE f [] = Inr []"
| "mapE f (x # xs) =
     (case f x of
        Inl e \<Rightarrow> Inl e
      | Inr y \<Rightarrow> (case mapE f xs of Inl e \<Rightarrow> Inl e | Inr ys \<Rightarrow> Inr (y # ys)))"

text \<open>
  \<^verbatim>\<open>v.map(f)\<close> on an arbitrary value: only an array has a \<^verbatim>\<open>map\<close> method, on
  anything else the call throws a TypeError (\<^verbatim>\<open>undefined\<close> and \<^verbatim>\<open>null\<close> have
  no properties at all).
\<close>

fun callMap :: "jsvalue \<Rightarrow> (jsvalue \<Rightarrow> error + 'b) \<Rightarrow> error + 'b list" where
  "callMap (Arr xs) f = mapE f xs"
| "callMap Undefined f = Inl (TypeError ''Cannot read properties of undefined (reading map)'')"
| "callMap Null f = Inl (TypeError ''Cannot read properties of null (reading map)'')"
| "callMap v f = Inl (TypeError ''map is not a function'')"

text \<open>\<^verbatim>\<open>Array.isArray\<close>\<close>

fun isArray :: "jsvalue \<Rightarrow> bool" where
  "isArray (Arr xs) = True"
| "isArray v = False"

text \<open>
  The response of \<^verbatim>\<open>fetch\<close>: the two flags the code reads and what the two
  ways of reading the body give (either may reject).
\<close>

record Response =
  ok :: bool
  status :: nat
  text' :: "error + string"
  json :: "error + jsvalue"

section \<open>Strings\<close>

text \<open>
  Strings are lists of 8-bit characters, which is exact for ASCII text.
  \<^verbatim>\<open>toLowerCase\<close> maps the letters A to Z to a to z and leaves every other
  character alone; the keywords the mock generator looks for are ASCII words. (On text
  outside ASCII the platform's \<^verbatim>\<open>toLowerCase\<close> also maps other letters, which
  the model does not follow.)
\<close>

definition toLowerCase_char :: "char \<Rightarrow> char" where
  "toLowerCase_char c =
     (case map_of (zip ''ABCDEFGHIJKLMNOPQRSTUVWXYZ'' ''abcdefghijklmnopqrstuvwxyz'') c of
        None \<Rightarrow> c
      | Some l \<Rightarrow> l)"

definition toLowerCase :: "string \<Rightarrow> string" where
  "toLowerCase s = map toLowerCase_char s"

text \<open>\<^verbatim>\<open>s.includes(k)\<close>: \<open>k\<close> occurs in \<open>s\<close> as a contiguous run.\<close>

fun includes_str :: "string \<Rightarrow> string \<Rightarrow> bool" where
  "includes_str [] k = (k = [])"
| "includes_str (c # s) k = (prefix k (c # s) \<or> includes_str s k)"

section \<open>The data model\<close>

text \<open>
  The generation result (\<^verbatim>\<open>StoryMapYAML\<close>) and the internal tree that
  \<^verbatim>\<open>convertYAMLToStoryMap\<close> builds from it. All of them carry a title and a
  description. The leaves are run-time values: the templates put strings there, the
  Gemini client whatever the provider sent. Field names that occur on both sides belong
  to the generation result when written without a qualifier.
\<close>

record Titled =
  title :: jsvalue
  description :: jsvalue

record Identified = Titled +
  id' :: string

record StoryTask = Identified +
  type :: string
  priority :: jsvalue
  status :: string
  acceptanceCriteria :: "jsvalue list"
  estimatedEffort :: jsvalue
  createdAt :: string
  updatedAt :: string

record Ordered = Identified +
  order :: nat

record StoryFeature = Ordered +
  tasks :: "StoryTask list"

record StoryEpic = Ordered +
  features :: "StoryFeature list"

record StoryMap = Identified +
  epics :: "StoryEpic list"
  createdAt :: string
  updatedAt :: string

record Task = Titled +
  priority :: jsvalue
  effort :: jsvalue
  acceptance_criteria :: "jsvalue list"

record Feature = Titled +
  tasks :: "Task list"

record Epic = Titled +
  features :: "Feature list"

record StoryMapYAML = Titled +
  epics :: "Epic list"

section \<open>The mock generator\<close>

definition generateEcommerceStoryMap :: "StoryMapYAML" where
  "generateEcommerceStoryMap =
    \<lparr>title = Str ''E-commerce Platform'',
     description = Str ''A comprehensive e-commerce platform for online retail'',
     epics = [
        \<lparr>title = Str ''User Management'',
         description = Str ''Core user account and authentication functionality'',
         features = [
            \<lparr>title = Str ''User Registration'',
             description = Str ''Allow users to create accounts'',
             tasks = [
                \<lparr>title = Str ''Registration Form'',
                 description = Str ''Create user registration form with validation'',
                 priority = Str ''high'',
                 effort = Str ''3 days'',
                 acceptance_criteria =
                    [Str ''Form includes email, password, and name fields'',
                     Str ''Email validation is implemented'',
                     Str ''Password strength requirements are enforced'']\<rparr>,
                \<lparr>title = Str ''Email Verification'',
                 description = Str ''Send verification email to new users'',
                 priority = Str ''medium'',
                 effort = Str ''2 days'',
                 acceptance_criteria =
                    [Str ''Verification email is sent upon registration'',
                     Str ''Email contains secure verification link'',
                     Str ''Account is activated upon email verification'']\<rparr>]\<rparr>,
            \<lparr>title = Str ''User Authentication'',
             description = Str ''Login and session management'',
             tasks = [
                \<lparr>title = Str ''Login System'',
                 description = Str ''Implement secure login functionality'',
                 priority = Str ''high'',
                 effort = Str ''2 days'',
                 acceptance_criteria =
                    [Str ''Users can login with email and password'',
                     Str ''Failed login attempts are tracked'',
                     Str ''Session tokens are securely generated'']\<rparr>]\<rparr>]\<rparr>,
        \<lparr>title = Str ''Product Catalog'',
         description = Str ''Product browsing and search functionality'',
         features = [
            \<lparr>title = Str ''Product Listing'',
             description = Str ''Display products in a searchable catalog'',
             tasks = [
                \<lparr>title = Str ''Product Grid'',
                 description = Str ''Create responsive product grid layout'',
                 priority = Str ''high'',
                 effort = Str ''4 days'',
                 acceptance_criteria =
                    [Str ''Products display in responsive grid'',
                     Str ''Each product shows image, title, and price'',
                     Str ''Grid adapts to different screen sizes'']\<rparr>,
                \<lparr>title = Str ''Search Functionality'',
                 description = Str ''Implement product search with filters'',
                 priority = Str ''medium'',
                 effort = Str ''3 days'',
                 acceptance_criteria =
                    [Str ''Users can search products by name'',
                     Str ''Filter by category, price, and rating'',
                     Str ''Search results update in real-time'']\<rparr>]\<rparr>]\<rparr>,
        \<lparr>title = Str ''Shopping Cart'',
         description = Str ''Cart management and checkout process'',
         features = [
            \<lparr>title = Str ''Cart Management'',
             description = Str ''Add, remove, and update cart items'',
             tasks = [
                \<lparr>title = Str ''Add to Cart'',
                 description = Str ''Allow users to add products to cart'',
                 priority = Str ''high'',
                 effort = Str ''2 days'',
                 acceptance_criteria =
                    [Str ''Users can add products to cart'',
                     Str ''Cart quantity is updated'',
                     Str ''Cart persists across sessions'']\<rparr>,
                \<lparr>title = Str ''Cart Review'',
                 description = Str ''Display cart contents and totals'',
                 priority = Str ''medium'',
                 effort = Str ''3 days'',
                 acceptance_criteria =
                    [Str ''Cart shows all added items'',
                     Str ''Subtotal, tax, and total are calculated'',
                     Str ''Users can modify quantities or remove items'']\<rparr>]\<rparr>]\<rparr>,
        \<lparr>title = Str ''Infrastructure & Technical'',
         description = Str ''Technical infrastructure and non-functional requirements'',
         features = [
            \<lparr>title = Str ''Security & Performance'',
             description = Str ''Security measures and performance optimization'',
             tasks = [
                \<lparr>title = Str ''Set up SSL/TLS encryption'',
                 description = Str ''Implement secure communication protocols for all transactions'',
                 priority = Str ''high'',
                 effort = Str ''2 days'',
                 acceptance_criteria =
                    [Str ''All data transmission is encrypted with TLS 1.3'',
                     Str ''SSL certificate is properly configured and auto-renewed'',
                     Str ''Security headers (HSTS, CSP) are implemented'']\<rparr>,
                \<lparr>title = Str ''Implement API rate limiting'',
                 description = Str ''Protect against abuse and ensure fair usage of resources'',
                 priority = Str ''medium'',
                 effort = Str ''3 days'',
                 acceptance_criteria =
                    [Str ''Rate limits are enforced per user/IP (100 requests/minute)'',
                     Str ''Graceful handling of rate limit exceeded with proper error messages'',
                     Str ''Monitoring and alerting for rate limit violations'']\<rparr>,
                \<lparr>title = Str ''Set up monitoring and alerting'',
                 description = Str ''Monitor system health, performance, and business metrics'',
                 priority = Str ''medium'',
                 effort = Str ''4 days'',
                 acceptance_criteria =
                    [Str ''Real-time monitoring of key metrics (response time, error rate, throughput)'',
                     Str ''Automated alerts for critical issues (downtime, high error rates)'',
                     Str ''Performance dashboards are available for stakeholders'']\<rparr>]\<rparr>,
            \<lparr>title = Str ''Data Management'',
             description = Str ''Database and data handling infrastructure'',
             tasks = [
                \<lparr>title = Str ''Design scalable database architecture'',
                 description = Str ''Create robust database design for horizontal scaling'',
                 priority = Str ''high'',
                 effort = Str ''5 days'',
                 acceptance_criteria =
                    [Str ''Database supports horizontal scaling with read replicas'',
                     Str ''Proper indexing strategy for optimal query performance'',
                     Str ''Data backup and recovery procedures with 99.9% uptime SLA'']\<rparr>,
                \<lparr>title = Str ''Implement caching strategy'',
                 description = Str ''Improve performance with intelligent caching layers'',
                 priority = Str ''medium'',
                 effort = Str ''3 days'',
                 acceptance_criteria =
                    [Str ''Redis cache is properly configured for session and data caching'',
                     Str ''Cache invalidation strategy is implemented for data consistency'',
                     Str ''Performance improvement is measurable (50% reduction in response time)'']\<rparr>,
                \<lparr>title = Str ''Set up automated security scanning'',
                 description = Str ''Implement continuous security vulnerability assessment'',
                 priority = Str ''medium'',
                 effort = Str ''2 days'',
                 acceptance_criteria =
                    [Str ''Automated security scans run daily'',
                     Str ''Vulnerability reports are generated and sent to security team'',
                     Str ''Integration with CI/CD pipeline for security checks'']\<rparr>]\<rparr>]\<rparr>]\<rparr>"

definition generateSocialNetworkStoryMap :: "StoryMapYAML" where
  "generateSocialNetworkStoryMap =
    \<lparr>title = Str ''Social Network Platform'',
     description = Str ''A social networking platform for connecting people'',
     epics = [
        \<lparr>title = Str ''User Profiles'',
         description = Str ''User profile creation and management'',
         features = [
            \<lparr>title = Str ''Profile Creation'',
             description = Str ''Users can create and edit their profiles'',
             tasks = [
                \<lparr>title = Str ''Profile Setup'',
                 description = Str ''Create profile setup wizard'',
                 priority = Str ''high'',
                 effort = Str ''4 days'',
                 acceptance_criteria =
                    [Str ''Users can upload profile picture'',
                     Str ''Bio and personal information can be added'',
                     Str ''Profile is publicly viewable'']\<rparr>]\<rparr>]\<rparr>,
        \<lparr>title = Str ''Content Sharing'',
         description = Str ''Post and share content with connections'',
         features = [
            \<lparr>title = Str ''Post Creation'',
             description = Str ''Create and share posts with text and media'',
             tasks = [
                \<lparr>title = Str ''Text Posts'',
                 description = Str ''Allow users to create text-based posts'',
                 priority = Str ''high'',
                 effort = Str ''3 days'',
                 acceptance_criteria =
                    [Str ''Users can write and publish text posts'',
                     Str ''Posts support basic formatting'',
                     Str ''Posts appear in user's feed'']\<rparr>]\<rparr>]\<rparr>,
        \<lparr>title = Str ''Infrastructure & Technical'',
         description = Str ''Technical infrastructure and non-functional requirements'',
         features = [
            \<lparr>title = Str ''Security & Performance'',
             description = Str ''Security measures and performance optimization'',
             tasks = [
                \<lparr>title = Str ''Implement user authentication framework'',
                 description = Str ''Set up secure user authentication and authorization'',
                 priority = Str ''high'',
                 effort = Str ''3 days'',
                 acceptance_criteria =
                    [Str ''OAuth 2.0 authentication is implemented'',
                     Str ''Role-based access control (RBAC) is configured'',
                     Str ''Session management with secure token handling'']\<rparr>,
                \<lparr>title = Str ''Set up content moderation system'',
                 description = Str ''Implement automated content filtering and moderation'',
                 priority = Str ''medium'',
                 effort = Str ''4 days'',
                 acceptance_criteria =
                    [Str ''Automated content filtering for inappropriate content'',
                     Str ''Manual moderation tools for admin users'',
                     Str ''Appeal process for flagged content'']\<rparr>,
                \<lparr>title = Str ''Implement real-time notifications'',
                 description = Str ''Set up WebSocket-based real-time notification system'',
                 priority = Str ''medium'',
                 effort = Str ''3 days'',
                 acceptance_criteria =
                    [Str ''Real-time notifications for new connections and messages'',
                     Str ''Push notifications for mobile devices'',
                     Str ''Notification preferences can be customized'']\<rparr>]\<rparr>,
            \<lparr>title = Str ''Data Management'',
             description = Str ''Database and data handling infrastructure'',
             tasks = [
                \<lparr>title = Str ''Design scalable media storage'',
                 description = Str ''Implement scalable storage for user uploads and media'',
                 priority = Str ''high'',
                 effort = Str ''4 days'',
                 acceptance_criteria =
                    [Str ''CDN integration for fast media delivery'',
                     Str ''Image optimization and compression'',
                     Str ''Backup and redundancy for media files'']\<rparr>,
                \<lparr>title = Str ''Implement search functionality'',
                 description = Str ''Set up full-text search for users and content'',
                 priority = Str ''medium'',
                 effort = Str ''3 days'',
                 acceptance_criteria =
                    [Str ''Elasticsearch integration for fast search'',
                     Str ''Search results include users, posts, and comments'',
                     Str ''Search suggestions and autocomplete functionality'']\<rparr>]\<rparr>]\<rparr>]\<rparr>"

definition generateTaskManagementStoryMap :: "StoryMapYAML" where
  "generateTaskManagementStoryMap =
    \<lparr>title = Str ''Task Management System'',
     description = Str ''A comprehensive task and project management platform'',
     epics = [
        \<lparr>title = Str ''Task Creation'',
         description = Str ''Create and manage individual tasks'',
         features = [
            \<lparr>title = Str ''Task Setup'',
             description = Str ''Create new tasks with details and assignments'',
             tasks = [
                \<lparr>title = Str ''Task Form'',
                 description = Str ''Create task creation form with all fields'',
                 priority = Str ''high'',
                 effort = Str ''3 days'',
                 acceptance_criteria =
                    [Str ''Form includes title, description, and due date'',
                     Str ''Users can assign tasks to team members'',
                     Str ''Priority levels can be set'']\<rparr>]\<rparr>]\<rparr>,
        \<lparr>title = Str ''Project Organization'',
         description = Str ''Organize tasks into projects and categories'',
         features = [
            \<lparr>title = Str ''Project Management'',
             description = Str ''Create and manage project structures'',
             tasks = [
                \<lparr>title = Str ''Project Creation'',
                 description = Str ''Allow users to create new projects'',
                 priority = Str ''high'',
                 effort = Str ''2 days'',
                 acceptance_criteria =
                    [Str ''Users can create new projects'',
                     Str ''Projects can have multiple tasks'',
                     Str ''Project progress is tracked'']\<rparr>]\<rparr>]\<rparr>,
        \<lparr>title = Str ''Infrastructure & Technical'',
         description = Str ''Technical infrastructure and non-functional requirements'',
         features = [
            \<lparr>title = Str ''Security & Performance'',
             description = Str ''Security measures and performance optimization'',
             tasks = [
                \<lparr>title = Str ''Set up role-based access control'',
                 description = Str ''Implement granular permissions for different user roles'',
                 priority = Str ''high'',
                 effort = Str ''3 days'',
                 acceptance_criteria =
                    [Str ''Admin, manager, and user roles are defined'',
                     Str ''Permissions are granular and configurable'',
                     Str ''Access control is enforced at API and UI levels'']\<rparr>,
                \<lparr>title = Str ''Implement audit logging'',
                 description = Str ''Track all user actions for compliance and debugging'',
                 priority = Str ''medium'',
                 effort = Str ''2 days'',
                 acceptance_criteria =
                    [Str ''All user actions are logged with timestamps'',
                     Str ''Audit logs are searchable and exportable'',
                     Str ''Sensitive operations trigger additional logging'']\<rparr>,
                \<lparr>title = Str ''Set up automated backups'',
                 description = Str ''Implement reliable data backup and recovery procedures'',
                 priority = Str ''high'',
                 effort = Str ''2 days'',
                 acceptance_criteria =
                    [Str ''Daily automated backups to secure location'',
                     Str ''Backup restoration process is tested monthly'',
                     Str ''Data retention policy is implemented'']\<rparr>]\<rparr>,
            \<lparr>title = Str ''Data Management'',
             description = Str ''Database and data handling infrastructure'',
             tasks = [
                \<lparr>title = Str ''Design scalable database architecture'',
                 description = Str ''Create robust database design for task management'',
                 priority = Str ''high'',
                 effort = Str ''4 days'',
                 acceptance_criteria =
                    [Str ''Database supports concurrent user access'',
                     Str ''Proper indexing for task queries and filtering'',
                     Str ''Data integrity constraints are enforced'']\<rparr>,
                \<lparr>title = Str ''Implement real-time collaboration'',
                 description = Str ''Enable real-time updates for collaborative task management'',
                 priority = Str ''medium'',
                 effort = Str ''3 days'',
                 acceptance_criteria =
                    [Str ''WebSocket connections for real-time updates'',
                     Str ''Conflict resolution for simultaneous edits'',
                     Str ''Presence indicators show who's online'']\<rparr>]\<rparr>]\<rparr>]\<rparr>"

definition generateGenericStoryMap :: "string \<Rightarrow> StoryMapYAML" where
  "generateGenericStoryMap productDescription =
    \<lparr>title = Str ''Product Application'',
     description = Str productDescription,
     epics = [
        \<lparr>title = Str ''Core Features'',
         description = Str ''Essential functionality for the application'',
         features = [
            \<lparr>title = Str ''User Interface'',
             description = Str ''Main user interface and navigation'',
             tasks = [
                \<lparr>title = Str ''Homepage Design'',
                 description = Str ''Create the main landing page'',
                 priority = Str ''high'',
                 effort = Str ''5 days'',
                 acceptance_criteria =
                    [Str ''Page loads quickly and is responsive'',
                     Str ''Navigation is intuitive and accessible'',
                     Str ''Content is well-organized and readable'']\<rparr>,
                \<lparr>title = Str ''User Authentication'',
                 description = Str ''Implement user login and registration'',
                 priority = Str ''high'',
                 effort = Str ''4 days'',
                 acceptance_criteria =
                    [Str ''Users can register new accounts'',
                     Str ''Secure login functionality'',
                     Str ''Password reset capability'']\<rparr>]\<rparr>]\<rparr>,
        \<lparr>title = Str ''Data Management'',
         description = Str ''Handle data storage and retrieval'',
         features = [
            \<lparr>title = Str ''Database Design'',
             description = Str ''Design and implement database structure'',
             tasks = [
                \<lparr>title = Str ''Schema Design'',
                 description = Str ''Create database schema for the application'',
                 priority = Str ''high'',
                 effort = Str ''3 days'',
                 acceptance_criteria =
                    [Str ''Database supports all required data types'',
                     Str ''Relationships are properly defined'',
                     Str ''Indexes are optimized for performance'']\<rparr>]\<rparr>]\<rparr>,
        \<lparr>title = Str ''Infrastructure & Technical'',
         description = Str ''Technical infrastructure and non-functional requirements'',
         features = [
            \<lparr>title = Str ''Security & Performance'',
             description = Str ''Security measures and performance optimization'',
             tasks = [
                \<lparr>title = Str ''Set up CI/CD pipeline'',
                 description = Str ''Implement automated testing and deployment pipeline'',
                 priority = Str ''high'',
                 effort = Str ''3 days'',
                 acceptance_criteria =
                    [Str ''Automated testing runs on every commit'',
                     Str ''Deployment is automated and rollback-capable'',
                     Str ''Environment-specific configurations are managed'']\<rparr>,
                \<lparr>title = Str ''Implement security scanning'',
                 description = Str ''Set up automated security vulnerability assessment'',
                 priority = Str ''medium'',
                 effort = Str ''2 days'',
                 acceptance_criteria =
                    [Str ''Automated security scans run daily'',
                     Str ''Vulnerability reports are generated'',
                     Str ''Integration with CI/CD pipeline'']\<rparr>,
                \<lparr>title = Str ''Set up monitoring and alerting'',
                 description = Str ''Monitor application health and performance'',
                 priority = Str ''medium'',
                 effort = Str ''3 days'',
                 acceptance_criteria =
                    [Str ''Real-time monitoring of key metrics'',
                     Str ''Automated alerts for critical issues'',
                     Str ''Performance dashboards are available'']\<rparr>]\<rparr>,
            \<lparr>title = Str ''Data Management'',
             description = Str ''Database and data handling infrastructure'',
             tasks = [
                \<lparr>title = Str ''Design scalable database architecture'',
                 description = Str ''Create robust database design for the application'',
                 priority = Str ''high'',
                 effort = Str ''4 days'',
                 acceptance_criteria =
                    [Str ''Database supports horizontal scaling'',
                     Str ''Proper indexing for optimal performance'',
                     Str ''Data backup and recovery procedures'']\<rparr>,
                \<lparr>title = Str ''Implement caching strategy'',
                 description = Str ''Improve performance with intelligent caching'',
                 priority = Str ''medium'',
                 effort = Str ''2 days'',
                 acceptance_criteria =
                    [Str ''Redis cache is properly configured'',
                     Str ''Cache invalidation strategy is implemented'',
                     Str ''Performance improvement is measurable'']\<rparr>]\<rparr>]\<rparr>]\<rparr>"

definition generateMockStoryMap :: "string \<Rightarrow> StoryMapYAML" where
  "generateMockStoryMap productDescription =
     (let keywords = toLowerCase productDescription in
      if includes_str keywords ''ecommerce'' \<or> includes_str keywords ''shop'' \<or> includes_str keywords ''store''
      then generateEcommerceStoryMap
      else if includes_str keywords ''social'' \<or> includes_str keywords ''network''
      then generateSocialNetworkStoryMap
      else if includes_str keywords ''task'' \<or> includes_str keywords ''todo''
      then generateTaskManagementStoryMap
      else generateGenericStoryMap productDescription)"

section \<open>Effects\<close>

text \<open>
  What a call does besides returning: the lines it writes to the console and the timer
  it waits for, in order. A call's outcome is this trace together with the value it
  returns or the error it throws.
\<close>

datatype effect =
    ConsoleWarn string "error option"
  | ConsoleError string error
  | SetTimeout nat

type_synonym 'a outcome = "effect list \<times> (error + 'a)"

section \<open>The orchestrator\<close>

text \<open>
  \<^verbatim>\<open>AIService\<close> owns one client per provider and uses two of their methods. The
  DeepSeek client is an object of another module, so a client is modelled by what these
  two methods do when called: nothing is assumed about them.
\<close>

record Client =
  isConfigured :: "bool outcome"
  generateStoryMap :: "string \<Rightarrow> StoryMapYAML outcome"

record AIService =
  deepseekService :: Client
  geminiService :: Client

text \<open>
  The body of the \<^verbatim>\<open>try\<close> block of \<^verbatim>\<open>AIService.generateStoryMap\<close>: the
  \<^verbatim>\<open>switch\<close> over the provider.
\<close>

definition AIService_switch :: "AIService \<Rightarrow> string \<Rightarrow> string \<Rightarrow> StoryMapYAML outcome" where
  "AIService_switch this productDescription provider =
     (if provider = ''deepseek'' then
        (case isConfigured (deepseekService this) of
           (trace, Inl e) \<Rightarrow> (trace, Inl e)
         | (trace, Inr True) \<Rightarrow>
             (case generateStoryMap (deepseekService this) productDescription of
                (trace', r) \<Rightarrow> (trace @ trace', r))
         | (trace, Inr False) \<Rightarrow>
             (trace @ [ConsoleWarn ''DeepSeek not configured, falling back to mock data'' None],
              Inr (generateMockStoryMap productDescription)))
      else if provider = ''gemini'' then
        (case isConfigured (geminiService this) of
           (trace, Inl e) \<Rightarrow> (trace, Inl e)
         | (trace, Inr True) \<Rightarrow>
             (case generateStoryMap (geminiService this) productDescription of
                (trace', r) \<Rightarrow> (trace @ trace', r))
         | (trace, Inr False) \<Rightarrow>
             (trace @ [ConsoleWarn ''Gemini not configured, falling back to mock data'' None],
              Inr (generateMockStoryMap productDescription)))
      else
        ([SetTimeout 2000], Inr (generateMockStoryMap productDescription)))"

text \<open>
  \<^verbatim>\<open>generateStoryMap(productDescription, provider = 'mock')\<close>: \<open>None\<close> is the
  omitted argument. The \<^verbatim>\<open>catch\<close> clause logs the error and returns the mock data.
\<close>

definition AIService_generateStoryMap ::
    "AIService \<Rightarrow> string \<Rightarrow> string option \<Rightarrow> StoryMapYAML outcome" where
  "AIService_generateStoryMap this productDescription providerArg =
     (let provider = (case providerArg of None \<Rightarrow> ''mock'' | Some p \<Rightarrow> p) in
      case AIService_switch this productDescription provider of
        (trace, Inr storyMap) \<Rightarrow> (trace, Inr storyMap)
      | (trace, Inl e) \<Rightarrow>
          (trace @ [ConsoleError (''Error generating story map with '' @ provider @ '':'') e],
           Inr (generateMockStoryMap productDescription)))"

section \<open>The format converter\<close>

text \<open>
  \<^verbatim>\<open>convertYAMLToStoryMap\<close> reads two sources of the run-time system:
  \<^verbatim>\<open>Math.random()\<close> and the clock. The run-time system is a pair of sequences, the
  text \<^verbatim>\<open>Math.random().toString(36)\<close> of the n-th random number and the text
  \<^verbatim>\<open>new Date().toISOString()\<close> of the n-th reading of the clock; the state counts
  how many of each have been used.
\<close>

record Runtime =
  random36 :: "nat \<Rightarrow> string"
  toISOString :: "nat \<Rightarrow> string"

record World =
  randomCalls :: nat
  dateCalls :: nat

text \<open>\<^verbatim>\<open>s.substr(start, len)\<close> for non-negative arguments.\<close>

definition substr :: "string \<Rightarrow> nat \<Rightarrow> nat \<Rightarrow> string" where
  "substr s start len = take len (drop start s)"

definition generateId :: "Runtime \<Rightarrow> World \<Rightarrow> string \<times> World" where
  "generateId rt w =
     (substr (random36 rt (randomCalls w)) 2 9, w\<lparr>randomCalls := Suc (randomCalls w)\<rparr>)"

definition newDate :: "Runtime \<Rightarrow> World \<Rightarrow> string \<times> World" where
  "newDate rt w = (toISOString rt (dateCalls w), w\<lparr>dateCalls := Suc (dateCalls w)\<rparr>)"

text \<open>
  \<^verbatim>\<open>xs.map((x, index) => ...)\<close> with a callback that changes the state: elements
  are visited in order, the index counts from the start.
\<close>

fun mapS :: "('a \<Rightarrow> nat \<Rightarrow> 's \<Rightarrow> 'b \<times> 's) \<Rightarrow> 'a list \<Rightarrow> nat \<Rightarrow> 's \<Rightarrow> 'b list \<times> 's" where
  "mapS f [] i s = ([], s)"
| "mapS f (x # xs) i s =
     (case f x i s of
        (y, s') \<Rightarrow> (case mapS f xs (Suc i) s' of (ys, s'') \<Rightarrow> (y # ys, s'')))"

definition convertTask :: "Runtime \<Rightarrow> Task \<Rightarrow> nat \<Rightarrow> World \<Rightarrow> StoryTask \<times> World" where
  "convertTask rt task taskIndex w =
     (case generateId rt w of
        (i, w1) \<Rightarrow>
     (case newDate rt w1 of
        (created, w2) \<Rightarrow>
     (case newDate rt w2 of
        (updated, w3) \<Rightarrow>
       (\<lparr>title = title task,
         description = description task,
         id' = i,
         type = ''task'',
         StoryTask.priority = priority task,
         status = ''todo'',
         acceptanceCriteria = acceptance_criteria task,
         estimatedEffort = effort task,
         StoryTask.createdAt = created,
         StoryTask.updatedAt = updated\<rparr>, w3))))"

definition convertFeature :: "Runtime \<Rightarrow> Feature \<Rightarrow> nat \<Rightarrow> World \<Rightarrow> StoryFeature \<times> World" where
  "convertFeature rt feature featureIndex w =
     (case generateId rt w of
        (i, w1) \<Rightarrow>
     (case mapS (convertTask rt) (tasks feature) 0 w1 of
        (ts, w2) \<Rightarrow>
       (\<lparr>title = title feature,
         description = description feature,
         id' = i,
         order = featureIndex,
         StoryFeature.tasks = ts\<rparr>, w2)))"

definition convertEpic :: "Runtime \<Rightarrow> Epic \<Rightarrow> nat \<Rightarrow> World \<Rightarrow> StoryEpic \<times> World" where
  "convertEpic rt epic epicIndex w =
     (case generateId rt w of
        (i, w1) \<Rightarrow>
     (case mapS (convertFeature rt) (features epic) 0 w1 of
        (fs, w2) \<Rightarrow>
       (\<lparr>title = title epic,
         description = description epic,
         id' = i,
         order = epicIndex,
         StoryEpic.features = fs\<rparr>, w2)))"

definition convertYAMLToStoryMap :: "Runtime \<Rightarrow> StoryMapYAML \<Rightarrow> World \<Rightarrow> StoryMap \<times> World" where
  "convertYAMLToStoryMap rt yamlData w =
     (case generateId rt w of
        (i, w1) \<Rightarrow>
     (case mapS (convertEpic rt) (epics yamlData) 0 w1 of
        (es, w2) \<Rightarrow>
     (case newDate rt w2 of
        (created, w3) \<Rightarrow>
     (case newDate rt w3 of
        (updated, w4) \<Rightarrow>
       (\<lparr>title = title yamlData,
         description = description yamlData,
         id' = i,
         StoryMap.epics = es,
         createdAt = created,
         updatedAt = updated\<rparr>, w4)))))"

section \<open>Observations of the internal tree\<close>

text \<open>
  The generation result that an internal tree was made from: the tree without the
  identifiers, orders, types, states and time stamps, the two renamed fields under their
  old names.
\<close>

definition eraseTask :: "StoryTask \<Rightarrow> Task" where
  "eraseTask t =
     \<lparr>title = title t, description = description t, priority = StoryTask.priority t,
      effort = estimatedEffort t, acceptance_criteria = acceptanceCriteria t\<rparr>"

definition eraseFeature :: "StoryFeature \<Rightarrow> Feature" where
  "eraseFeature f =
     \<lparr>title = title f, description = description f,
      tasks = map eraseTask (StoryFeature.tasks f)\<rparr>"

definition eraseEpic :: "StoryEpic \<Rightarrow> Epic" where
  "eraseEpic e =
     \<lparr>title = title e, description = description e,
      features = map eraseFeature (StoryEpic.features e)\<rparr>"

definition eraseStoryMap :: "StoryMap \<Rightarrow> StoryMapYAML" where
  "eraseStoryMap m =
     \<lparr>title = title m, description = description m,
      epics = map eraseEpic (StoryMap.epics m)\<rparr>"

text \<open>The features of an epic carry the orders 0, 1, 2, ... in sequence.\<close>

definition featuresInOrder :: "StoryEpic \<Rightarrow> bool" where
  "featuresInOrder e \<longleftrightarrow>
     map order (StoryEpic.features e) = [0 ..< length (StoryEpic.features e)]"

text \<open>
  The identifier that \<^verbatim>\<open>generateId\<close> makes of the n-th random number, the
  identifiers of a tree in the order in which they are generated (the map, then each epic
  followed by its features, each feature followed by its tasks), and the number of nodes
  of a generation result.
\<close>

definition idText :: "Runtime \<Rightarrow> nat \<Rightarrow> string" where
  "idText rt n = substr (random36 rt n) 2 9"

definition featureIds :: "StoryFeature \<Rightarrow> string list" where
  "featureIds f = id' f # map id' (StoryFeature.tasks f)"

definition epicIds :: "StoryEpic \<Rightarrow> string list" where
  "epicIds e = id' e # concat (map featureIds (StoryEpic.features e))"

definition storyMapIds :: "StoryMap \<Rightarrow> string list" where
  "storyMapIds m = id' m # concat (map epicIds (StoryMap.epics m))"

definition featureNodes :: "Feature \<Rightarrow> nat" where
  "featureNodes f = Suc (length (tasks f))"

definition epicNodes :: "Epic \<Rightarrow> nat" where
  "epicNodes e = Suc (sum_list (map featureNodes (features e)))"

definition storyMapNodes :: "StoryMapYAML \<Rightarrow> nat" where
  "storyMapNodes y = Suc (sum_list (map epicNodes (epics y)))"

section \<open>The Gemini client\<close>

text \<open>
  The constructor reads the two variables of \<^verbatim>\<open>import.meta.env\<close> inside a
  \<^verbatim>\<open>try\<close>. The environment is either an error, which reading it throws, or the
  table of the variables that are set.
\<close>

record GeminiService =
  apiKey :: string
  apiUrl :: string

definition defaultApiUrl :: string where
  "defaultApiUrl =
     ''https://generativelanguage.googleapis.com/v1beta/models/gemini-pro:generateContent''"

text \<open>\<^verbatim>\<open>env.NAME || fallback\<close> on a variable that is a string when it is set.\<close>

definition envOr :: "(string \<rightharpoonup> string) \<Rightarrow> string \<Rightarrow> string \<Rightarrow> string" where
  "envOr env name fallback =
     (case env name of
        None \<Rightarrow> fallback
      | Some v \<Rightarrow> if v = [] then fallback else v)"

definition GeminiService_constructor ::
    "error + (string \<rightharpoonup> string) \<Rightarrow> effect list \<times> GeminiService" where
  "GeminiService_constructor importMetaEnv =
     (case importMetaEnv of
        Inr env \<Rightarrow>
          ([], \<lparr>apiKey = envOr env ''VITE_GEMINI_API_KEY'' [],
                apiUrl = envOr env ''VITE_GEMINI_API_URL'' defaultApiUrl\<rparr>)
      | Inl e \<Rightarrow>
          ([ConsoleWarn ''Failed to initialize Gemini service:'' (Some e)],
           \<lparr>apiKey = [], apiUrl = defaultApiUrl\<rparr>))"

text \<open>
  \<^verbatim>\<open>isConfigured\<close>: the \<^verbatim>\<open>try\<close> block returns \<^verbatim>\<open>!!this.apiKey\<close>, the
  \<^verbatim>\<open>catch\<close> clause warns and returns false.
\<close>

definition GeminiService_isConfigured :: "GeminiService \<Rightarrow> bool outcome" where
  "GeminiService_isConfigured this =
     (case (Inr (apiKey this \<noteq> []) :: error + bool) of
        Inr b \<Rightarrow> ([], Inr b)
      | Inl e \<Rightarrow> ([ConsoleWarn ''Error checking Gemini configuration:'' (Some e)], Inr False))"

text \<open>
  \<^verbatim>\<open>content.match(/\{[\s\S]*\}/)\<close>: the match starts at the first opening brace
  that has a closing brace somewhere after it, and the greedy star runs to the last
  closing brace of the text. \<open>None\<close> is \<^verbatim>\<open>null\<close>, \<open>Some m\<close> a match whose
  element 0 is \<open>m\<close>.
\<close>

definition jsonMatch :: "string \<Rightarrow> string option" where
  "jsonMatch content =
     (let fromOpen = dropWhile (\<lambda>c. c \<noteq> CHR ''{'') content in
      if CHR ''}'' \<in> set fromOpen
      then Some (rev (dropWhile (\<lambda>c. c \<noteq> CHR ''}'') (rev fromOpen)))
      else None)"

text \<open>Sequencing of two steps the first of which may throw.\<close>

definition bindE :: "error + 'a \<Rightarrow> ('a \<Rightarrow> error + 'b) \<Rightarrow> error + 'b" where
  "bindE r f = (case r of Inl e \<Rightarrow> Inl e | Inr x \<Rightarrow> f x)"

text \<open>
  The three callbacks of \<^verbatim>\<open>validateAndTransformResponse\<close>, innermost first. The
  properties are read in the order of the object literal.
\<close>

definition transformTask :: "jsvalue \<Rightarrow> error + Task" where
  "transformTask task =
     bindE (getProp task ''title'') (\<lambda>t.
     bindE (getProp task ''description'') (\<lambda>d.
     bindE (getProp task ''priority'') (\<lambda>p.
     bindE (getProp task ''effort'') (\<lambda>e.
     bindE (getProp task ''acceptance_criteria'') (\<lambda>ac.
       Inr \<lparr>title = or_else t (Str ''Untitled Task''),
            description = or_else d (Str []),
            priority = or_else p (Str ''medium''),
            effort = or_else e (Str ''2 days''),
            acceptance_criteria =
              (case ac of
                 Arr criteria \<Rightarrow> criteria
               | _ \<Rightarrow> [Str ''Acceptance criteria not specified''])\<rparr>)))))"

definition transformFeature :: "jsvalue \<Rightarrow> error + Feature" where
  "transformFeature feature =
     bindE (getProp feature ''title'') (\<lambda>t.
     bindE (getProp feature ''description'') (\<lambda>d.
     bindE (getProp feature ''tasks'') (\<lambda>ts.
     bindE (callMap (or_else ts (Arr [])) transformTask) (\<lambda>ts'.
       Inr \<lparr>title = or_else t (Str ''Untitled Feature''),
            description = or_else d (Str []),
            tasks = ts'\<rparr>))))"

definition transformEpic :: "jsvalue \<Rightarrow> error + Epic" where
  "transformEpic epic =
     bindE (getProp epic ''title'') (\<lambda>t.
     bindE (getProp epic ''description'') (\<lambda>d.
     bindE (getProp epic ''features'') (\<lambda>fs.
     bindE (callMap (or_else fs (Arr [])) transformFeature) (\<lambda>fs'.
       Inr \<lparr>title = or_else t (Str ''Untitled Epic''),
            description = or_else d (Str []),
            features = fs'\<rparr>))))"

definition validateAndTransformResponse :: "jsvalue \<Rightarrow> error + StoryMapYAML" where
  "validateAndTransformResponse response =
     bindE (getProp response ''title'') (\<lambda>t.
       if \<not> truthy t then Inl (Error ''Invalid response structure from Gemini API'') else
     bindE (getProp response ''description'') (\<lambda>d.
       if \<not> truthy d then Inl (Error ''Invalid response structure from Gemini API'') else
     bindE (getProp response ''epics'') (\<lambda>es.
       if \<not> isArray es then Inl (Error ''Invalid response structure from Gemini API'') else
     bindE (callMap es transformEpic) (\<lambda>es'.
       Inr \<lparr>title = t, description = d, epics = es'\<rparr>))))"

text \<open>Decimal digits of a number, as the template literal prints \<^verbatim>\<open>response.status\<close>.\<close>

fun show_nat :: "nat \<Rightarrow> string" where
  "show_nat n =
     (if n < 10 then [''0123456789'' ! n]
      else show_nat (n div 10) @ [''0123456789'' ! (n mod 10)])"

declare show_nat.simps [simp del]

text \<open>
  The \<^verbatim>\<open>try\<close> block of \<^verbatim>\<open>GeminiService.generateStoryMap\<close>, in three
  parts. Two things come from outside: \<open>JSON_parse\<close>, the platform's
  \<^verbatim>\<open>JSON.parse\<close>, and \<open>fetch\<close>, the outcome of the POST to the given URL whose
  body carries the prompt written for the given product description (a rejected promise
  is \<open>Inl\<close>).

  \<^verbatim>\<open>candidates?.[0]?.content?.parts?.[0]?.text\<close>:
\<close>

definition responseContent :: "jsvalue \<Rightarrow> jsvalue" where
  "responseContent candidates =
     optProp (optIndex0 (optProp (optProp (optIndex0 candidates) ''content'') ''parts'')) ''text''"

text \<open>From the test of \<^verbatim>\<open>content\<close> to the \<^verbatim>\<open>return\<close>:\<close>

definition extractStoryMap ::
    "(string \<Rightarrow> error + jsvalue) \<Rightarrow> jsvalue \<Rightarrow> error + StoryMapYAML" where
  "extractStoryMap JSON_parse content =
     (if \<not> truthy content then Inl (Error ''No response content from Gemini API'')
      else
        (case content of
           Str s \<Rightarrow>
             (case jsonMatch s of
                None \<Rightarrow> Inl (Error ''No valid JSON found in Gemini response'')
              | Some m \<Rightarrow> bindE (JSON_parse m) validateAndTransformResponse)
         | _ \<Rightarrow> Inl (TypeError ''content.match is not a function'')))"

definition GeminiService_request ::
    "(string \<Rightarrow> error + jsvalue) \<Rightarrow> (string \<Rightarrow> string \<Rightarrow> error + Response) \<Rightarrow>
     GeminiService \<Rightarrow> string \<Rightarrow> error + StoryMapYAML" where
  "GeminiService_request JSON_parse fetch this productDescription =
     bindE (fetch (apiUrl this @ ''?key='' @ apiKey this) productDescription) (\<lambda>response.
       if \<not> ok response then
         bindE (text' response) (\<lambda>errorText.
           Inl (Error (''Gemini API error: '' @ show_nat (Response.status response) @ '' - '' @ errorText)))
       else
     bindE (json response) (\<lambda>data.
     bindE (getProp data ''candidates'') (\<lambda>candidates.
       extractStoryMap JSON_parse (responseContent candidates))))"

definition GeminiService_generateStoryMap ::
    "(string \<Rightarrow> error + jsvalue) \<Rightarrow> (string \<Rightarrow> string \<Rightarrow> error + Response) \<Rightarrow>
     GeminiService \<Rightarrow> string \<Rightarrow> StoryMapYAML outcome" where
  "GeminiService_generateStoryMap JSON_parse fetch this productDescription =
     (if apiKey this = [] then
        ([], Inl (Error ''Gemini API key not found. Please add VITE_GEMINI_API_KEY to your environment variables.''))
      else
        (case GeminiService_request JSON_parse fetch this productDescription of
           Inr storyMap \<Rightarrow> ([], Inr storyMap)
         | Inl e \<Rightarrow>
             ([ConsoleError ''Gemini API error:'' e],
              Inl (Error (''Failed to generate story map: '' @ message e)))))"

text \<open>The Gemini client as the orchestrator sees it.\<close>

definition GeminiService_client ::
    "(string \<Rightarrow> error + jsvalue) \<Rightarrow> (string \<Rightarrow> string \<Rightarrow> error + Response) \<Rightarrow>
     GeminiService \<Rightarrow> Client" where
  "GeminiService_client JSON_parse fetch this =
     \<lparr>isConfigured = GeminiService_isConfigured this,
      generateStoryMap = GeminiService_generateStoryMap JSON_parse fetch this\<rparr>"

section \<open>The extraction in the words of the specification\<close>

text \<open>
  Follows the specification's words, not the code: "the first balanced \<^verbatim>\<open>{...}\<close>
  span" of a text. \<open>closeBrace n s\<close> is the shortest beginning of \<open>s\<close> that closes
  \<open>n + 1\<close> open braces; the span starts at the first opening brace that is closed.
\<close>

fun closeBrace :: "nat \<Rightarrow> string \<Rightarrow> string option" where
  "closeBrace n [] = None"
| "closeBrace n (c # s) =
     (if c = CHR ''{'' then map_option ((#) c) (closeBrace (Suc n) s)
      else if c = CHR ''}'' then
        (case n of 0 \<Rightarrow> Some [c] | Suc m \<Rightarrow> map_option ((#) c) (closeBrace m s))
      else map_option ((#) c) (closeBrace n s))"

fun spec_firstBalancedSpan :: "string \<Rightarrow> string option" where
  "spec_firstBalancedSpan [] = None"
| "spec_firstBalancedSpan (c # s) =
     (if c = CHR ''{'' then
        (case closeBrace 0 s of
           Some m \<Rightarrow> Some (c # m)
         | None \<Rightarrow> spec_firstBalancedSpan s)
      else spec_firstBalancedSpan s)"

section \<open>Example inputs\<close>

text \<open>A client that is configured and whose call always throws.\<close>

definition failingClient :: Client where
  "failingClient =
     \<lparr>isConfigured = ([], Inr True),
      generateStoryMap = (\<lambda>d. ([], Inl (Error ''503 Service Unavailable'')))\<rparr>"

text \<open>A Gemini client with a key, on a network where every request is rejected.\<close>

definition offlineGemini :: Client where
  "offlineGemini =
     GeminiService_client (\<lambda>s. Inl (SyntaxError ''Unexpected token''))
       (\<lambda>url d. Inl (TypeError ''Failed to fetch''))
       \<lparr>apiKey = ''key'', apiUrl = defaultApiUrl\<rparr>"

definition exampleService :: AIService where
  "exampleService = \<lparr>deepseekService = failingClient, geminiService = offlineGemini\<rparr>"

text \<open>
  A source of random numbers whose first two numbers differ only after their ninth
  digit, one whose numbers differ at once, and a small generation result.
\<close>

definition collidingRuntime :: Runtime where
  "collidingRuntime =
     \<lparr>random36 = (\<lambda>n. if n = 0 then ''0.4fzyo82mvyr'' else ''0.4fzyo82mvz1''),
      toISOString = (\<lambda>n. ''2026-01-01T00:00:00.000Z'')\<rparr>"

definition spreadRuntime :: Runtime where
  "spreadRuntime =
     \<lparr>random36 = (\<lambda>n. if n = 0 then ''0.4fzyo82mvyr'' else ''0.9kq2x7c1abz''),
      toISOString = (\<lambda>n. ''2026-01-01T00:00:00.000Z'')\<rparr>"

definition smallYAML :: StoryMapYAML where
  "smallYAML =
     \<lparr>title = Str ''Blog'', description = Str ''A blog'',
      epics = [\<lparr>title = Str ''Posts'', description = Str ''Writing'', features = []\<rparr>]\<rparr>"

text \<open>
  Two parsed replies: one whose only task has the priority "urgent", one whose feature
  has the string "none" where the list of tasks should be.
\<close>

definition urgentResponse :: jsvalue where
  "urgentResponse =
     Obj [(''title'', Str ''Blog''),
          (''description'', Str ''A blog''),
          (''epics'', Arr [
             Obj [(''title'', Str ''Posts''),
                  (''features'', Arr [
                     Obj [(''title'', Str ''Editor''),
                          (''tasks'', Arr [
                             Obj [(''title'', Str ''Write a post''),
                                  (''priority'', Str ''urgent'')]])]])]])]"

definition tasksNotArrayResponse :: jsvalue where
  "tasksNotArrayResponse =
     Obj [(''title'', Str ''Blog''),
          (''description'', Str ''A blog''),
          (''epics'', Arr [
             Obj [(''title'', Str ''Posts''),
                  (''features'', Arr [
                     Obj [(''title'', Str ''Editor''),
                          (''tasks'', Str ''none'')]])]])]"

text \<open>
  For the Gemini client: a parser that knows the text \<^verbatim>\<open>{}\<close> only, a network
  that answers every request with a reply whose text is \<open>content\<close>, and a client with
  a key.
\<close>

definition bracesOnlyParse :: "string \<Rightarrow> error + jsvalue" where
  "bracesOnlyParse s = (if s = ''{}'' then Inr (Obj []) else Inl (SyntaxError ''Unexpected token''))"

definition replyWith :: "string \<Rightarrow> string \<Rightarrow> string \<Rightarrow> error + Response" where
  "replyWith content url d =
     Inr \<lparr>ok = True, status = 200, text' = Inl (TypeError ''body used already''),
          json = Inr (Obj [(''candidates'', Arr [
                    Obj [(''content'', Obj [(''parts'', Arr [
                      Obj [(''text'', Str content)]])])]])])\<rparr>"

definition keyedGemini :: GeminiService where
  "keyedGemini = \<lparr>apiKey = ''key'', apiUrl = defaultApiUrl\<rparr>"

section \<open>Facts about the building blocks\<close>

lemma includes_iff_sublist: "includes_str s k \<longleftrightarrow> sublist k s"
  by (induction s) (auto simp: sublist_Cons_right)

lemma sublist_toLowerCase:
  "sublist w d \<Longrightarrow> sublist (toLowerCase w) (toLowerCase d)"
  unfolding toLowerCase_def by (rule map_mono_sublist)

lemma toLowerCase_segment:
  assumes "sublist k (toLowerCase d)"
  shows "\<exists>w. sublist w d \<and> toLowerCase w = k"
  using sublist_map_rightE [of k toLowerCase_char d] assms
  unfolding toLowerCase_def by blast

text \<open>
  Lower-casing the text and looking for a lower-case word finds the word in any mix of
  upper and lower case.
\<close>

lemma includes_toLowerCase:
  "includes_str (toLowerCase d) k \<longleftrightarrow> (\<exists>w. sublist w d \<and> toLowerCase w = k)"
  using toLowerCase_segment [of k d] sublist_toLowerCase [of _ d]
  by (auto simp: includes_iff_sublist)

lemma no_keyword_iff:
  "(\<forall>v. sublist v d \<longrightarrow> toLowerCase v \<noteq> k) \<longleftrightarrow> \<not> includes_str (toLowerCase d) k"
  by (auto simp: includes_toLowerCase)

section \<open>Properties of the mock generator\<close>

lemma generateMockStoryMap_cases:
  "generateMockStoryMap d =
     (if \<exists>w. sublist w d \<and> toLowerCase w \<in> {''ecommerce'', ''shop'', ''store''}
      then generateEcommerceStoryMap
      else if \<exists>w. sublist w d \<and> toLowerCase w \<in> {''social'', ''network''}
      then generateSocialNetworkStoryMap
      else if \<exists>w. sublist w d \<and> toLowerCase w \<in> {''task'', ''todo''}
      then generateTaskManagementStoryMap
      else generateGenericStoryMap d)"
proof -
  let ?lower = "toLowerCase d"
  have e: "(\<exists>w. sublist w d \<and> toLowerCase w \<in> {''ecommerce'', ''shop'', ''store''}) \<longleftrightarrow>
           includes_str ?lower ''ecommerce'' \<or> includes_str ?lower ''shop'' \<or>
           includes_str ?lower ''store''"
    unfolding includes_toLowerCase by blast
  have s: "(\<exists>w. sublist w d \<and> toLowerCase w \<in> {''social'', ''network''}) \<longleftrightarrow>
           includes_str ?lower ''social'' \<or> includes_str ?lower ''network''"
    unfolding includes_toLowerCase by blast
  have t: "(\<exists>w. sublist w d \<and> toLowerCase w \<in> {''task'', ''todo''}) \<longleftrightarrow>
           includes_str ?lower ''task'' \<or> includes_str ?lower ''todo''"
    unfolding includes_toLowerCase by blast
  show ?thesis
    unfolding e s t generateMockStoryMap_def Let_def by (rule refl)
qed

text \<open>The four templates are four different results.\<close>

lemma templates_distinct:
  "distinct [title generateEcommerceStoryMap, title generateSocialNetworkStoryMap,
             title generateTaskManagementStoryMap, title (generateGenericStoryMap d)]"
  by (simp add: generateEcommerceStoryMap_def generateSocialNetworkStoryMap_def
        generateTaskManagementStoryMap_def generateGenericStoryMap_def)

text \<open>
  Claim C6. Let \<open>w\<close> be a piece of the description \<open>d\<close>. If \<open>w\<close> is one of
  ecommerce, shop, store in any mix of upper and lower case, the mock generator returns
  the e-commerce template, whatever else the description holds. If \<open>w\<close> is social or
  network in any case and no piece of \<open>d\<close> is an e-commerce keyword in any case, it
  returns the social network template. If \<open>w\<close> is task or todo in any case and no
  piece of \<open>d\<close> is a keyword of the two earlier categories, it returns the task
  management template.
\<close>

theorem generateMockStoryMap_selection:
  assumes "sublist w d"
  shows
    "(toLowerCase w \<in> {''ecommerce'', ''shop'', ''store''} \<longrightarrow>
        generateMockStoryMap d = generateEcommerceStoryMap) \<and>
     (toLowerCase w \<in> {''social'', ''network''} \<and>
      (\<forall>v. sublist v d \<longrightarrow> toLowerCase v \<notin> {''ecommerce'', ''shop'', ''store''}) \<longrightarrow>
        generateMockStoryMap d = generateSocialNetworkStoryMap) \<and>
     (toLowerCase w \<in> {''task'', ''todo''} \<and>
      (\<forall>v. sublist v d \<longrightarrow>
         toLowerCase v \<notin> {''ecommerce'', ''shop'', ''store'', ''social'', ''network''}) \<longrightarrow>
        generateMockStoryMap d = generateTaskManagementStoryMap)"
  using assms unfolding generateMockStoryMap_cases by auto

text \<open>
  Three descriptions: one with SHOP and Social, one with NETWORK and todo, one with
  Todo alone.
\<close>

theorem generateMockStoryMap_selection_witness:
  "(sublist ''SHOP'' ''My SHOP for Social clubs'' \<and>
    toLowerCase ''SHOP'' \<in> {''ecommerce'', ''shop'', ''store''} \<and>
    generateMockStoryMap ''My SHOP for Social clubs'' = generateEcommerceStoryMap) \<and>
   (sublist ''NETWORK'' ''A NETWORK of todo lists'' \<and>
    toLowerCase ''NETWORK'' \<in> {''social'', ''network''} \<and>
    \<not> includes_str (toLowerCase ''A NETWORK of todo lists'') ''ecommerce'' \<and>
    \<not> includes_str (toLowerCase ''A NETWORK of todo lists'') ''shop'' \<and>
    \<not> includes_str (toLowerCase ''A NETWORK of todo lists'') ''store'' \<and>
    generateMockStoryMap ''A NETWORK of todo lists'' = generateSocialNetworkStoryMap) \<and>
   (sublist ''Todo'' ''Todo lists'' \<and>
    toLowerCase ''Todo'' \<in> {''task'', ''todo''} \<and>
    \<not> includes_str (toLowerCase ''Todo lists'') ''ecommerce'' \<and>
    \<not> includes_str (toLowerCase ''Todo lists'') ''shop'' \<and>
    \<not> includes_str (toLowerCase ''Todo lists'') ''store'' \<and>
    \<not> includes_str (toLowerCase ''Todo lists'') ''social'' \<and>
    \<not> includes_str (toLowerCase ''Todo lists'') ''network'' \<and>
    generateMockStoryMap ''Todo lists'' = generateTaskManagementStoryMap)"
proof -
  have s1: "sublist ''SHOP'' ''My SHOP for Social clubs''"
    unfolding includes_iff_sublist [symmetric] by simp
  have l1: "toLowerCase ''SHOP'' \<in> {''ecommerce'', ''shop'', ''store''}"
    by (simp add: toLowerCase_def toLowerCase_char_def)
  have s2: "sublist ''NETWORK'' ''A NETWORK of todo lists''"
    unfolding includes_iff_sublist [symmetric] by simp
  have l2: "toLowerCase ''NETWORK'' \<in> {''social'', ''network''}"
    by (simp add: toLowerCase_def toLowerCase_char_def)
  have n2: "\<not> includes_str (toLowerCase ''A NETWORK of todo lists'') ''ecommerce'' \<and>
            \<not> includes_str (toLowerCase ''A NETWORK of todo lists'') ''shop'' \<and>
            \<not> includes_str (toLowerCase ''A NETWORK of todo lists'') ''store''"
    by (simp add: toLowerCase_def toLowerCase_char_def)
  then have a2: "\<forall>v. sublist v ''A NETWORK of todo lists'' \<longrightarrow>
                   toLowerCase v \<notin> {''ecommerce'', ''shop'', ''store''}"
    unfolding no_keyword_iff [symmetric] by blast
  have s3: "sublist ''Todo'' ''Todo lists''"
    unfolding includes_iff_sublist [symmetric] by simp
  have l3: "toLowerCase ''Todo'' \<in> {''task'', ''todo''}"
    by (simp add: toLowerCase_def toLowerCase_char_def)
  have n3: "\<not> includes_str (toLowerCase ''Todo lists'') ''ecommerce'' \<and>
            \<not> includes_str (toLowerCase ''Todo lists'') ''shop'' \<and>
            \<not> includes_str (toLowerCase ''Todo lists'') ''store'' \<and>
            \<not> includes_str (toLowerCase ''Todo lists'') ''social'' \<and>
            \<not> includes_str (toLowerCase ''Todo lists'') ''network''"
    by (simp add: toLowerCase_def toLowerCase_char_def)
  then have a3: "\<forall>v. sublist v ''Todo lists'' \<longrightarrow>
                   toLowerCase v \<notin> {''ecommerce'', ''shop'', ''store'', ''social'', ''network''}"
    unfolding no_keyword_iff [symmetric] by blast
  have r1: "generateMockStoryMap ''My SHOP for Social clubs'' = generateEcommerceStoryMap"
    using generateMockStoryMap_selection [OF s1] l1 by blast
  have r2: "generateMockStoryMap ''A NETWORK of todo lists'' = generateSocialNetworkStoryMap"
    using generateMockStoryMap_selection [OF s2] l2 a2 by blast
  have r3: "generateMockStoryMap ''Todo lists'' = generateTaskManagementStoryMap"
    using generateMockStoryMap_selection [OF s3] l3 a3 by blast
  from s1 l1 r1 s2 l2 n2 r2 s3 l3 n3 r3 show ?thesis
    by - (elim conjE, (intro conjI; assumption))
qed

text \<open>
  Claim C7. When the lower-cased description contains none of the seven keywords, the
  mock generator returns the generic template: its description is the input string as
  it was given, its title is "Product Application", and everything but the description
  is the same for every input.
\<close>

theorem generic_template:
  assumes "\<forall>k \<in> {''ecommerce'', ''shop'', ''store'', ''social'', ''network'', ''task'', ''todo''}.
             \<not> includes_str (toLowerCase d) k"
  shows "generateMockStoryMap d = generateGenericStoryMap d \<and>
         description (generateMockStoryMap d) = Str d \<and>
         title (generateMockStoryMap d) = Str ''Product Application'' \<and>
         generateGenericStoryMap d = (generateGenericStoryMap [])\<lparr>description := Str d\<rparr>"
  using assms
  by (simp add: generateMockStoryMap_def generateGenericStoryMap_def)

theorem generic_template_witness:
  "\<not> includes_str (toLowerCase ''A Blog'') ''ecommerce'' \<and>
   \<not> includes_str (toLowerCase ''A Blog'') ''shop'' \<and>
   \<not> includes_str (toLowerCase ''A Blog'') ''store'' \<and>
   \<not> includes_str (toLowerCase ''A Blog'') ''social'' \<and>
   \<not> includes_str (toLowerCase ''A Blog'') ''network'' \<and>
   \<not> includes_str (toLowerCase ''A Blog'') ''task'' \<and>
   \<not> includes_str (toLowerCase ''A Blog'') ''todo'' \<and>
   generateMockStoryMap ''A Blog'' = generateGenericStoryMap ''A Blog'' \<and>
   description (generateMockStoryMap ''A Blog'') = Str ''A Blog'' \<and>
   title (generateMockStoryMap ''A Blog'') = Str ''Product Application''"
proof -
  have h: "\<forall>k \<in> {''ecommerce'', ''shop'', ''store'', ''social'', ''network'', ''task'', ''todo''}.
             \<not> includes_str (toLowerCase ''A Blog'') k"
    by (simp add: toLowerCase_def toLowerCase_char_def)
  then have n:
    "\<not> includes_str (toLowerCase ''A Blog'') ''ecommerce'' \<and>
     \<not> includes_str (toLowerCase ''A Blog'') ''shop'' \<and>
     \<not> includes_str (toLowerCase ''A Blog'') ''store'' \<and>
     \<not> includes_str (toLowerCase ''A Blog'') ''social'' \<and>
     \<not> includes_str (toLowerCase ''A Blog'') ''network'' \<and>
     \<not> includes_str (toLowerCase ''A Blog'') ''task'' \<and>
     \<not> includes_str (toLowerCase ''A Blog'') ''todo''"
    by (simp only: ball_simps simp_thms)
  from n generic_template [OF h] show ?thesis
    by - (elim conjE, (intro conjI; assumption))
qed

section \<open>Properties of the orchestrator\<close>

lemma generateStoryMap_returns:
  "\<exists>storyMap. snd (AIService_generateStoryMap this d providerArg) = Inr storyMap"
  by (auto simp: AIService_generateStoryMap_def Let_def split: prod.splits sum.splits)

lemma generateStoryMap_falls_back:
  assumes "providerArg = Some ''deepseek'' \<and> c = deepseekService this \<or>
           providerArg = Some ''gemini'' \<and> c = geminiService this"
      and "snd (isConfigured c) \<noteq> Inr True \<or> isl (snd (generateStoryMap c d))"
  shows "snd (AIService_generateStoryMap this d providerArg) = Inr (generateMockStoryMap d)"
  using assms
  by (auto simp: AIService_generateStoryMap_def AIService_switch_def Let_def isl_def
           split: prod.splits sum.splits bool.splits)

lemma offlineGemini_fails:
  "snd (isConfigured offlineGemini) = Inr True \<and> isl (snd (generateStoryMap offlineGemini d))"
  by (simp add: offlineGemini_def GeminiService_client_def GeminiService_isConfigured_def
        GeminiService_generateStoryMap_def GeminiService_request_def bindE_def)

text \<open>
  Claim C1. \<^verbatim>\<open>AIService.generateStoryMap\<close> never throws, whatever the description,
  the provider argument and the behaviour of the two clients. When the selected client
  \<open>c\<close> cannot be used (its \<^verbatim>\<open>isConfigured\<close> throws or says no) or its
  \<^verbatim>\<open>generateStoryMap\<close> throws, the call returns the mock generator's result for the
  same description, which is also what the call with provider \<^verbatim>\<open>mock\<close> returns.
\<close>

theorem generateStoryMap_never_fails:
  "(\<exists>storyMap. snd (AIService_generateStoryMap this d providerArg) = Inr storyMap) \<and>
   ((providerArg = Some ''deepseek'' \<and> c = deepseekService this \<or>
     providerArg = Some ''gemini'' \<and> c = geminiService this) \<and>
    (snd (isConfigured c) \<noteq> Inr True \<or> isl (snd (generateStoryMap c d))) \<longrightarrow>
    snd (AIService_generateStoryMap this d providerArg) = Inr (generateMockStoryMap d) \<and>
    snd (AIService_generateStoryMap this d providerArg) =
      snd (AIService_generateStoryMap this d (Some ''mock'')))"
proof -
  have mock: "snd (AIService_generateStoryMap this d (Some ''mock'')) = Inr (generateMockStoryMap d)"
    by (simp add: AIService_generateStoryMap_def AIService_switch_def)
  show ?thesis
    using generateStoryMap_returns [of this d providerArg]
          generateStoryMap_falls_back [of providerArg c this d] mock
    by simp
qed

text \<open>
  The Gemini client with a key on a network that rejects every request: the request for
  \<^verbatim>\<open>gemini\<close> returns what the request for \<^verbatim>\<open>mock\<close> returns.
\<close>

theorem generateStoryMap_never_fails_witness:
  "(Some ''gemini'' = Some ''gemini'' \<and> offlineGemini = geminiService exampleService) \<and>
   snd (isConfigured offlineGemini) = Inr True \<and>
   isl (snd (generateStoryMap offlineGemini ''an online shop'')) \<and>
   snd (AIService_generateStoryMap exampleService ''an online shop'' (Some ''gemini'')) =
     Inr (generateMockStoryMap ''an online shop'') \<and>
   snd (AIService_generateStoryMap exampleService ''an online shop'' (Some ''gemini'')) =
     snd (AIService_generateStoryMap exampleService ''an online shop'' (Some ''mock''))"
  using generateStoryMap_never_fails
          [of exampleService "''an online shop''" "Some ''gemini''" offlineGemini]
        offlineGemini_fails [of "''an online shop''"]
  by (auto simp: exampleService_def)

text \<open>
  Claim C10. With the provider argument omitted, or with any provider other than
  \<^verbatim>\<open>deepseek\<close> and \<^verbatim>\<open>gemini\<close>, the call waits for the timer of 2000 ms,
  writes nothing to the console and returns the mock generator's result for the
  description; it does not throw.
\<close>

theorem generateStoryMap_unknown_provider_is_mock:
  assumes "providerArg \<notin> {Some ''deepseek'', Some ''gemini''}"
  shows "AIService_generateStoryMap this productDescription providerArg =
           ([SetTimeout 2000], Inr (generateMockStoryMap productDescription))"
  using assms
  by (cases providerArg) (simp_all add: AIService_generateStoryMap_def AIService_switch_def)

theorem generateStoryMap_unknown_provider_is_mock_witness:
  "Some ''openai'' \<notin> {Some ''deepseek'', Some ''gemini''} \<and>
   (None :: string option) \<notin> {Some ''deepseek'', Some ''gemini''} \<and>
   AIService_generateStoryMap exampleService ''a blog'' (Some ''openai'') =
     ([SetTimeout 2000], Inr (generateMockStoryMap ''a blog'')) \<and>
   AIService_generateStoryMap exampleService ''a blog'' None =
     ([SetTimeout 2000], Inr (generateMockStoryMap ''a blog''))"
  using generateStoryMap_unknown_provider_is_mock [of "Some ''openai''" exampleService "''a blog''"]
        generateStoryMap_unknown_provider_is_mock [of None exampleService "''a blog''"]
  by simp

section \<open>Properties of the format converter\<close>

lemma fst_mapS_Cons:
  "fst (mapS f (x # xs) i s) = fst (f x i s) # fst (mapS f xs (Suc i) (snd (f x i s)))"
  by (simp add: case_prod_beta)

lemma snd_mapS_Cons:
  "snd (mapS f (x # xs) i s) = snd (mapS f xs (Suc i) (snd (f x i s)))"
  by (simp add: case_prod_beta)

lemma mapS_erase:
  assumes "\<And>x i s. g (fst (f x i s)) = x"
  shows "map g (fst (mapS f xs i s)) = xs"
  by (induction xs arbitrary: i s) (simp_all add: fst_mapS_Cons assms del: mapS.simps(2))

lemma mapS_order:
  assumes "\<And>x i s. ord (fst (f x i s)) = i"
  shows "map ord (fst (mapS f xs i s)) = [i ..< i + length xs]"
proof (induction xs arbitrary: i s)
  case Nil
  then show ?case by simp
next
  case (Cons x xs)
  have "i < i + length (x # xs)" by simp
  then have "[i ..< i + length (x # xs)] = i # [Suc i ..< i + length (x # xs)]"
    by (rule upt_conv_Cons)
  moreover have "i + length (x # xs) = Suc i + length xs" by simp
  ultimately have "[i ..< i + length (x # xs)] = i # [Suc i ..< Suc i + length xs]"
    by (simp only:)
  moreover have "map ord (fst (mapS f (x # xs) i s)) = i # [Suc i ..< Suc i + length xs]"
    by (simp only: fst_mapS_Cons list.map assms Cons.IH)
  ultimately show ?case by (simp only:)
qed

lemma mapS_all:
  assumes "\<And>x i s. P (fst (f x i s))"
  shows "list_all P (fst (mapS f xs i s))"
  by (induction xs arbitrary: i s) (simp_all add: fst_mapS_Cons assms del: mapS.simps(2))

lemma length_mapS: "length (fst (mapS f xs i s)) = length xs"
  by (induction xs arbitrary: i s) (simp_all add: fst_mapS_Cons del: mapS.simps(2))

lemma eraseTask_convertTask: "eraseTask (fst (convertTask rt t i w)) = t"
  by (simp add: eraseTask_def convertTask_def case_prod_beta)

lemma eraseFeature_convertFeature: "eraseFeature (fst (convertFeature rt f i w)) = f"
  by (simp add: eraseFeature_def convertFeature_def case_prod_beta
        mapS_erase [where g = eraseTask, OF eraseTask_convertTask])

lemma eraseEpic_convertEpic: "eraseEpic (fst (convertEpic rt e i w)) = e"
  by (simp add: eraseEpic_def convertEpic_def case_prod_beta
        mapS_erase [where g = eraseFeature, OF eraseFeature_convertFeature])

lemma eraseStoryMap_convert: "eraseStoryMap (fst (convertYAMLToStoryMap rt y w)) = y"
  by (simp add: eraseStoryMap_def convertYAMLToStoryMap_def case_prod_beta
        mapS_erase [where g = eraseEpic, OF eraseEpic_convertEpic])

lemma order_convertFeature: "order (fst (convertFeature rt f i w)) = i"
  by (simp add: convertFeature_def case_prod_beta)

lemma order_convertEpic:
  "order (fst (convertEpic rt e i w)) = i"
  by (simp add: convertEpic_def case_prod_beta)

lemma featuresInOrder_convertEpic:
  "featuresInOrder (fst (convertEpic rt e i w))"
  using mapS_order [where ord = order and f = "convertFeature rt", OF order_convertFeature]
  by (simp add: featuresInOrder_def convertEpic_def case_prod_beta length_mapS)

text \<open>
  Claim C8. The converter gives the epics the orders 0, 1, 2, ... in the sequence of the
  input and the features of every epic the orders 0, 1, 2, ... in their sequence; taking
  away what the converter added gives back the input, so the epics, features and tasks
  are as many as in the input and in the same sequence.
\<close>

theorem convert_preserves_order:
  "eraseStoryMap (fst (convertYAMLToStoryMap rt y w)) = y \<and>
   map order (StoryMap.epics (fst (convertYAMLToStoryMap rt y w))) = [0 ..< length (epics y)] \<and>
   list_all featuresInOrder (StoryMap.epics (fst (convertYAMLToStoryMap rt y w)))"
proof -
  have "map order (StoryMap.epics (fst (convertYAMLToStoryMap rt y w))) = [0 ..< length (epics y)]"
    using mapS_order [where ord = order and f = "convertEpic rt", OF order_convertEpic]
    by (simp add: convertYAMLToStoryMap_def case_prod_beta)
  moreover have "list_all featuresInOrder (StoryMap.epics (fst (convertYAMLToStoryMap rt y w)))"
    using mapS_all [where P = featuresInOrder and f = "convertEpic rt", OF featuresInOrder_convertEpic]
    by (simp add: convertYAMLToStoryMap_def case_prod_beta)
  ultimately show ?thesis
    using eraseStoryMap_convert [of rt y w] by simp
qed


lemma upt_first: "[r ..< r + Suc n] = r # [Suc r ..< Suc r + n]"
proof -
  have "r < r + Suc n" by simp
  from upt_conv_Cons [OF this] show ?thesis
    by (simp only: add_Suc add_Suc_right)
qed

lemma mapS_ids:
  assumes step: "\<And>x i s. ids (fst (f x i s)) = map g [randomCalls s ..< randomCalls s + cost x] \<and>
                          randomCalls (snd (f x i s)) = randomCalls s + cost x"
  shows "concat (map ids (fst (mapS f xs i s))) =
           map g [randomCalls s ..< randomCalls s + sum_list (map cost xs)] \<and>
         randomCalls (snd (mapS f xs i s)) = randomCalls s + sum_list (map cost xs)"
proof (induction xs arbitrary: i s)
  case Nil
  then show ?case by simp
next
  case (Cons x xs)
  let ?r = "randomCalls s"
  let ?s' = "snd (f x i s)"
  have r': "randomCalls ?s' = ?r + cost x" using step by simp
  have split: "[?r ..< ?r + cost x + sum_list (map cost xs)] =
               [?r ..< ?r + cost x] @ [?r + cost x ..< ?r + cost x + sum_list (map cost xs)]"
    using upt_add_eq_append [of ?r "?r + cost x" "sum_list (map cost xs)"] by simp
  have "concat (map ids (fst (mapS f (x # xs) i s))) =
          ids (fst (f x i s)) @ concat (map ids (fst (mapS f xs (Suc i) ?s')))"
    by (simp add: fst_mapS_Cons del: mapS.simps(2))
  also have "\<dots> = map g [?r ..< ?r + cost x] @
                   map g [?r + cost x ..< ?r + cost x + sum_list (map cost xs)]"
    using step [of x i s] Cons.IH [of "Suc i" ?s'] r' by simp
  also have "\<dots> = map g [?r ..< ?r + sum_list (map cost (x # xs))]"
    using split by (simp add: add.assoc)
  finally have ids: "concat (map ids (fst (mapS f (x # xs) i s))) =
                       map g [?r ..< ?r + sum_list (map cost (x # xs))]" .
  have "randomCalls (snd (mapS f (x # xs) i s)) = ?r + sum_list (map cost (x # xs))"
    using Cons.IH [of "Suc i" ?s'] r' by (simp add: snd_mapS_Cons del: mapS.simps(2))
  with ids show ?case by simp
qed

lemma convertTask_ids:
  "[id' (fst (convertTask rt t i w))] = map (idText rt) [randomCalls w ..< randomCalls w + 1] \<and>
   randomCalls (snd (convertTask rt t i w)) = randomCalls w + 1"
  by (simp add: convertTask_def generateId_def newDate_def idText_def)

lemma convertFeature_ids:
  "featureIds (fst (convertFeature rt f i w)) =
     map (idText rt) [randomCalls w ..< randomCalls w + featureNodes f] \<and>
   randomCalls (snd (convertFeature rt f i w)) = randomCalls w + featureNodes f"
proof -
  let ?w1 = "snd (generateId rt w)"
  have w1: "randomCalls ?w1 = Suc (randomCalls w)" by (simp add: generateId_def)
  have i: "fst (generateId rt w) = idText rt (randomCalls w)"
    by (simp add: generateId_def idText_def)
  note m = mapS_ids [where ids = "\<lambda>t. [id' t]" and f = "convertTask rt" and g = "idText rt"
                      and cost = "\<lambda>t. 1", OF convertTask_ids, of "tasks f" 0 ?w1]
  have c: "concat (map (\<lambda>t. [id' t]) ts) = map id' ts" for ts :: "StoryTask list"
    by (induction ts) simp_all
  have u: "[randomCalls w ..< randomCalls w + featureNodes f] =
           randomCalls w # [Suc (randomCalls w) ..< Suc (randomCalls w) + length (tasks f)]"
    by (simp only: featureNodes_def upt_first)
  show ?thesis
    using m w1 i unfolding u
    by (simp add: featureIds_def convertFeature_def case_prod_beta c featureNodes_def
          sum_list_triv)
qed


lemma convertEpic_ids:
  "epicIds (fst (convertEpic rt e i w)) =
     map (idText rt) [randomCalls w ..< randomCalls w + epicNodes e] \<and>
   randomCalls (snd (convertEpic rt e i w)) = randomCalls w + epicNodes e"
proof -
  let ?w1 = "snd (generateId rt w)"
  have w1: "randomCalls ?w1 = Suc (randomCalls w)" by (simp add: generateId_def)
  have i: "fst (generateId rt w) = idText rt (randomCalls w)"
    by (simp add: generateId_def idText_def)
  note m = mapS_ids [where ids = featureIds and f = "convertFeature rt" and g = "idText rt"
                      and cost = featureNodes, OF convertFeature_ids, of "features e" 0 ?w1]
  have u: "[randomCalls w ..< randomCalls w + epicNodes e] =
           randomCalls w #
           [Suc (randomCalls w) ..< Suc (randomCalls w) + sum_list (map featureNodes (features e))]"
    by (simp only: epicNodes_def upt_first)
  show ?thesis
    using m w1 i unfolding u
    by (simp add: epicIds_def convertEpic_def case_prod_beta epicNodes_def)
qed

lemma convertYAMLToStoryMap_ids:
  "storyMapIds (fst (convertYAMLToStoryMap rt y w)) =
     map (idText rt) [randomCalls w ..< randomCalls w + storyMapNodes y]"
proof -
  let ?w1 = "snd (generateId rt w)"
  have w1: "randomCalls ?w1 = Suc (randomCalls w)" by (simp add: generateId_def)
  have i: "fst (generateId rt w) = idText rt (randomCalls w)"
    by (simp add: generateId_def idText_def)
  note m = mapS_ids [where ids = epicIds and f = "convertEpic rt" and g = "idText rt"
                      and cost = epicNodes, OF convertEpic_ids, of "epics y" 0 ?w1]
  have u: "[randomCalls w ..< randomCalls w + storyMapNodes y] =
           randomCalls w #
           [Suc (randomCalls w) ..< Suc (randomCalls w) + sum_list (map epicNodes (epics y))]"
    by (simp only: storyMapNodes_def upt_first)
  show ?thesis
    using m w1 i unfolding u
    by (simp add: storyMapIds_def convertYAMLToStoryMap_def case_prod_beta)
qed

text \<open>
  Claim C5, as the code has it. Every node of the tree gets the identifier made of one
  fresh random number: the identifiers of the tree, in the order of generation, are the
  identifiers of as many successive random numbers as the tree has nodes. They are
  pairwise distinct if and only if these random numbers give pairwise distinct
  identifiers; nothing in the converter makes them so.
\<close>

theorem identifiers_follow_random_source:
  "storyMapIds (fst (convertYAMLToStoryMap rt y w)) =
     map (idText rt) [randomCalls w ..< randomCalls w + storyMapNodes y] \<and>
   (distinct (storyMapIds (fst (convertYAMLToStoryMap rt y w))) \<longleftrightarrow>
    inj_on (idText rt) {randomCalls w ..< randomCalls w + storyMapNodes y})"
  by (simp add: convertYAMLToStoryMap_ids distinct_map)

text \<open>With random numbers that differ at once the two identifiers differ.\<close>

theorem identifiers_follow_random_source_witness:
  "storyMapIds (fst (convertYAMLToStoryMap spreadRuntime smallYAML
                       \<lparr>randomCalls = 0, dateCalls = 0\<rparr>)) = [''4fzyo82mv'', ''9kq2x7c1a''] \<and>
   distinct (storyMapIds (fst (convertYAMLToStoryMap spreadRuntime smallYAML
                                 \<lparr>randomCalls = 0, dateCalls = 0\<rparr>)))"
proof -
  have n: "storyMapNodes smallYAML = Suc (Suc 0)"
    by (simp add: storyMapNodes_def epicNodes_def smallYAML_def)
  have u: "[0 ..< Suc (Suc 0)] = [0, Suc 0]"
    by (simp add: upt_rec)
  have "storyMapIds (fst (convertYAMLToStoryMap spreadRuntime smallYAML
                       \<lparr>randomCalls = 0, dateCalls = 0\<rparr>)) = [''4fzyo82mv'', ''9kq2x7c1a'']"
    using identifiers_follow_random_source
            [of spreadRuntime smallYAML "\<lparr>randomCalls = 0, dateCalls = 0\<rparr>"]
    by (simp add: n u idText_def substr_def spreadRuntime_def)
  then show ?thesis by simp
qed

text \<open>
  Claim C5, as the specification has it, fails: two random numbers that agree in their
  first nine digits give the map and its epic the same identifier.
\<close>

theorem identifiers_collide:
  "\<not> distinct (storyMapIds (fst (convertYAMLToStoryMap collidingRuntime smallYAML
                                    \<lparr>randomCalls = 0, dateCalls = 0\<rparr>)))"
  by (simp add: storyMapIds_def epicIds_def convertYAMLToStoryMap_def convertEpic_def
        generateId_def newDate_def substr_def collidingRuntime_def smallYAML_def)

section \<open>Properties of the Gemini client\<close>

text \<open>
  Claim C9. \<^verbatim>\<open>isConfigured\<close> of the Gemini client returns and writes nothing to
  the console, for every state of the client; it says yes exactly when the key is not
  empty. For a client built by the constructor that means: exactly when reading the
  environment did not throw and the variable \<^verbatim>\<open>VITE_GEMINI_API_KEY\<close> is set to a
  non-empty string.
\<close>

theorem isConfigured_total:
  "GeminiService_isConfigured this = ([], Inr (apiKey this \<noteq> [])) \<and>
   snd (GeminiService_isConfigured (snd (GeminiService_constructor importMetaEnv))) =
     Inr (\<exists>env k. importMetaEnv = Inr env \<and> env ''VITE_GEMINI_API_KEY'' = Some k \<and> k \<noteq> [])"
  by (auto simp: GeminiService_isConfigured_def GeminiService_constructor_def envOr_def
           split: sum.splits option.splits)

subsection \<open>The normalization pass\<close>

text \<open>
  What the pass does to a task object and to a feature object whose \<^verbatim>\<open>tasks\<close> is
  missing or falsy: every missing or falsy field gets its default, a list of criteria
  that is not an array is replaced by the placeholder, the missing list of tasks is
  empty.
\<close>

lemma transformTask_Obj:
  "transformTask (Obj ps) =
     Inr \<lparr>title = or_else (optProp (Obj ps) ''title'') (Str ''Untitled Task''),
          description = or_else (optProp (Obj ps) ''description'') (Str []),
          priority = or_else (optProp (Obj ps) ''priority'') (Str ''medium''),
          effort = or_else (optProp (Obj ps) ''effort'') (Str ''2 days''),
          acceptance_criteria =
            (case optProp (Obj ps) ''acceptance_criteria'' of
               Arr criteria \<Rightarrow> criteria
             | _ \<Rightarrow> [Str ''Acceptance criteria not specified''])\<rparr>"
  by (simp add: transformTask_def bindE_def)

lemma transformFeature_no_tasks:
  assumes "\<not> truthy (optProp (Obj ps) ''tasks'')"
  shows "transformFeature (Obj ps) =
           Inr \<lparr>title = or_else (optProp (Obj ps) ''title'') (Str ''Untitled Feature''),
                description = or_else (optProp (Obj ps) ''description'') (Str []),
                tasks = []\<rparr>"
  using assms by (simp add: transformFeature_def bindE_def or_else_def)

text \<open>
  Claim C2, as the code has it. For every task object the pass succeeds, and the
  priority of the result is \<^verbatim>\<open>medium\<close> when the field is missing or falsy
  (\<^verbatim>\<open>null\<close>, \<^verbatim>\<open>false\<close>, 0, the empty string) and the value of the field,
  unchanged, in every other case. So the result's priority is one of the three values
  only if the field was, or was missing or falsy.
\<close>

theorem transformTask_priority:
  "\<exists>t. transformTask (Obj ps) = Inr t \<and>
       priority t =
         (case map_of ps ''priority'' of
            None \<Rightarrow> Str ''medium''
          | Some p \<Rightarrow> if truthy p then p else Str ''medium'')"
  by (simp add: transformTask_def bindE_def or_else_def split: option.splits)

text \<open>
  Claim C2, as the specification has it, fails: the priority "urgent" of a parsed reply
  is still "urgent" after the pass.
\<close>

theorem urgent_priority_kept:
  "validateAndTransformResponse urgentResponse =
     Inr \<lparr>title = Str ''Blog'', description = Str ''A blog'',
          epics = [
            \<lparr>title = Str ''Posts'', description = Str [],
             features = [
               \<lparr>title = Str ''Editor'', description = Str [],
                tasks = [
                  \<lparr>title = Str ''Write a post'', description = Str [],
                   priority = Str ''urgent'', effort = Str ''2 days'',
                   acceptance_criteria = [Str ''Acceptance criteria not specified'']\<rparr>]\<rparr>]\<rparr>]\<rparr>"
  by (simp add: urgentResponse_def validateAndTransformResponse_def transformEpic_def
        transformFeature_def transformTask_def bindE_def or_else_def)

text \<open>
  Claim C3 does not hold of the code. The reply has a title, a description and an array
  of epics, and the \<^verbatim>\<open>tasks\<close> of its feature is the string "none": the pass
  throws a TypeError, because \<^verbatim>\<open>feature.tasks || []\<close> is that string and a string
  has no \<^verbatim>\<open>map\<close>. The list of acceptance criteria is tested with
  \<^verbatim>\<open>Array.isArray\<close>, the lists of features and of tasks are not.
\<close>

theorem tasks_not_array_throws:
  "validateAndTransformResponse tasksNotArrayResponse = Inl (TypeError ''map is not a function'')"
  by (simp add: tasksNotArrayResponse_def validateAndTransformResponse_def transformEpic_def
        transformFeature_def transformTask_def bindE_def or_else_def)

subsection \<open>The extraction of the reply\<close>

lemma jsonMatch_span:
  assumes "CHR ''{'' \<notin> set pre" and "CHR ''}'' \<notin> set post"
  shows "jsonMatch (pre @ ''{'' @ mid @ ''}'' @ post) = Some (''{'' @ mid @ ''}'')"
proof -
  let ?P = "\<lambda>c. c \<noteq> CHR ''{''" and ?Q = "\<lambda>c. c \<noteq> CHR ''}''"
  have "dropWhile ?P pre = []" using assms(1) by auto
  then have d: "dropWhile ?P (pre @ ''{'' @ mid @ ''}'' @ post) = ''{'' @ mid @ ''}'' @ post"
    using assms(1) by (simp add: dropWhile_append)
  have "dropWhile ?Q (rev post) = []" using assms(2) by auto
  then have "dropWhile ?Q (rev (''{'' @ mid @ ''}'' @ post)) = CHR ''}'' # rev mid @ ''{''"
    using assms(2) by (simp add: dropWhile_append)
  then have "rev (dropWhile ?Q (rev (''{'' @ mid @ ''}'' @ post))) = ''{'' @ mid @ ''}''"
    by simp
  then show ?thesis
    unfolding jsonMatch_def Let_def d by simp
qed

lemma jsonMatch_Some_span:
  assumes "jsonMatch content = Some m"
  shows "\<exists>pre mid post. content = pre @ ''{'' @ mid @ ''}'' @ post \<and>
           CHR ''{'' \<notin> set pre \<and> CHR ''}'' \<notin> set post \<and> m = ''{'' @ mid @ ''}''"
proof -
  let ?P = "\<lambda>c. c \<noteq> CHR ''{''" and ?Q = "\<lambda>c. c \<noteq> CHR ''}''"
  let ?pre = "takeWhile ?P content" and ?tail = "dropWhile ?P content"
  from assms have close: "CHR ''}'' \<in> set ?tail"
    and m: "m = rev (dropWhile ?Q (rev ?tail))"
    by (auto simp: jsonMatch_def Let_def split: if_splits)
  have "\<exists>rest. ?tail = CHR ''{'' # rest"
  proof (cases ?tail)
    case Nil
    with close have "CHR ''}'' \<in> set ([] :: string)" by (simp only:)
    then show ?thesis by simp
  next
    case (Cons c rest)
    with hd_dropWhile [of ?P content] have "c = CHR ''{''" by simp
    with Cons show ?thesis by simp
  qed
  then obtain rest where fo: "?tail = CHR ''{'' # rest" ..
  with close have r: "CHR ''}'' \<in> set (rev rest)" by auto
  let ?post = "rev (takeWhile ?Q (rev rest))"
  from r have "dropWhile ?Q (rev rest) \<noteq> []"
    by auto
  then obtain r2 where d: "dropWhile ?Q (rev rest) = CHR ''}'' # r2"
    using hd_dropWhile [of ?Q "rev rest"] by (cases "dropWhile ?Q (rev rest)") auto
  have "rev rest = takeWhile ?Q (rev rest) @ CHR ''}'' # r2"
    using takeWhile_dropWhile_id [of ?Q "rev rest"] d by simp
  then have "rev (rev rest) = rev (takeWhile ?Q (rev rest) @ CHR ''}'' # r2)" by (rule arg_cong)
  then have rest: "rest = rev r2 @ ''}'' @ ?post" by simp
  have "dropWhile ?Q (rev ?tail) = dropWhile ?Q (rev rest) @ ''{''"
    using r fo by (simp add: dropWhile_append)
  with m d have m': "m = ''{'' @ rev r2 @ ''}''" by simp
  have "content = ?pre @ ?tail" by simp
  with fo rest have c: "content = ?pre @ ''{'' @ rev r2 @ ''}'' @ ?post" by simp
  have p1: "CHR ''{'' \<notin> set ?pre" using set_takeWhileD [of "CHR ''{''" ?P content] by auto
  have p2: "CHR ''}'' \<notin> set ?post"
    using set_takeWhileD [of "CHR ''}''" ?Q "rev rest"] by auto
  from c p1 p2 m' show ?thesis by blast
qed

lemma jsonMatch_None:
  "jsonMatch content = None \<longleftrightarrow> \<not> (\<exists>pre mid post. content = pre @ ''{'' @ mid @ ''}'' @ post)"
proof
  assume n: "jsonMatch content = None"
  show "\<not> (\<exists>pre mid post. content = pre @ ''{'' @ mid @ ''}'' @ post)"
  proof
    assume "\<exists>pre mid post. content = pre @ ''{'' @ mid @ ''}'' @ post"
    then obtain pre mid post where c: "content = pre @ ''{'' @ mid @ ''}'' @ post" by blast
    have "CHR ''}'' \<in> set (dropWhile (\<lambda>c. c \<noteq> CHR ''{'') content)"
      unfolding c by (simp add: dropWhile_append)
    with n show False by (simp add: jsonMatch_def Let_def)
  qed
next
  assume "\<not> (\<exists>pre mid post. content = pre @ ''{'' @ mid @ ''}'' @ post)"
  then show "jsonMatch content = None"
    using jsonMatch_Some_span [of content] by (cases "jsonMatch content") blast+
qed


lemma generateStoryMap_on_content:
  assumes "apiKey this \<noteq> []"
      and "fetch (apiUrl this @ ''?key='' @ apiKey this) d = Inr response"
      and "ok response"
      and "json response = Inr data"
      and "getProp data ''candidates'' = Inr candidates"
      and "responseContent candidates = Str content"
      and "content \<noteq> []"
  shows "snd (GeminiService_generateStoryMap JSON_parse fetch this d) =
           (case jsonMatch content of
              None \<Rightarrow>
                Inl (Error ''Failed to generate story map: No valid JSON found in Gemini response'')
            | Some m \<Rightarrow>
                (case JSON_parse m of
                   Inl e \<Rightarrow> Inl (Error (''Failed to generate story map: '' @ message e))
                 | Inr v \<Rightarrow>
                     (case validateAndTransformResponse v of
                        Inl e \<Rightarrow> Inl (Error (''Failed to generate story map: '' @ message e))
                      | Inr storyMap \<Rightarrow> Inr storyMap)))"
  using assms
  by (simp add: GeminiService_generateStoryMap_def GeminiService_request_def
        extractStoryMap_def bindE_def split: option.splits sum.splits)

text \<open>
  Claim C4, as the code has it. Let the request succeed with a reply whose text
  \<open>content\<close> is a non-empty string. The extracted span runs from the first opening
  brace of \<open>content\<close> to its last closing brace: there is none exactly when no opening
  brace is followed by a closing one, and JSON wrapped in prose is extracted as it is
  when the prose before it has no opening brace and the prose after it no closing brace.
  The call throws an Error whose message starts with "Failed to generate story map: "
  when there is no span, when the span does not parse, and when the parsed value does
  not pass the validation; otherwise it returns the normalized value.
\<close>

theorem reply_extraction:
  assumes "apiKey this \<noteq> []"
      and "fetch (apiUrl this @ ''?key='' @ apiKey this) d = Inr response"
      and "ok response"
      and "json response = Inr data"
      and "getProp data ''candidates'' = Inr candidates"
      and "responseContent candidates = Str content"
      and "content \<noteq> []"
  shows "(jsonMatch content = None \<longleftrightarrow>
            \<not> (\<exists>pre mid post. content = pre @ ''{'' @ mid @ ''}'' @ post)) \<and>
         (\<forall>m. jsonMatch content = Some m \<longleftrightarrow>
            (\<exists>pre mid post. content = pre @ ''{'' @ mid @ ''}'' @ post \<and>
               CHR ''{'' \<notin> set pre \<and> CHR ''}'' \<notin> set post \<and> m = ''{'' @ mid @ ''}'')) \<and>
         snd (GeminiService_generateStoryMap JSON_parse fetch this d) =
           (case jsonMatch content of
              None \<Rightarrow>
                Inl (Error ''Failed to generate story map: No valid JSON found in Gemini response'')
            | Some m \<Rightarrow>
                (case JSON_parse m of
                   Inl e \<Rightarrow> Inl (Error (''Failed to generate story map: '' @ message e))
                 | Inr v \<Rightarrow>
                     (case validateAndTransformResponse v of
                        Inl e \<Rightarrow> Inl (Error (''Failed to generate story map: '' @ message e))
                      | Inr storyMap \<Rightarrow> Inr storyMap)))"
proof -
  have "jsonMatch content = Some m \<longleftrightarrow>
          (\<exists>pre mid post. content = pre @ ''{'' @ mid @ ''}'' @ post \<and>
             CHR ''{'' \<notin> set pre \<and> CHR ''}'' \<notin> set post \<and> m = ''{'' @ mid @ ''}'')" for m
    using jsonMatch_Some_span [of content m] jsonMatch_span by blast
  moreover have "snd (GeminiService_generateStoryMap JSON_parse fetch this d) =
           (case jsonMatch content of
              None \<Rightarrow>
                Inl (Error ''Failed to generate story map: No valid JSON found in Gemini response'')
            | Some m \<Rightarrow>
                (case JSON_parse m of
                   Inl e \<Rightarrow> Inl (Error (''Failed to generate story map: '' @ message e))
                 | Inr v \<Rightarrow>
                     (case validateAndTransformResponse v of
                        Inl e \<Rightarrow> Inl (Error (''Failed to generate story map: '' @ message e))
                      | Inr storyMap \<Rightarrow> Inr storyMap)))"
    by (rule generateStoryMap_on_content
              [where response = response and data = data and candidates = candidates])
       (rule assms)+
  ultimately show ?thesis
    using jsonMatch_None [of content] by blast
qed

theorem reply_extraction_witness:
  "jsonMatch ''Here you are: {} Enjoy.'' = Some ''{}'' \<and>
   snd (GeminiService_generateStoryMap bracesOnlyParse (replyWith ''Here you are: {} Enjoy.'')
          keyedGemini ''a blog'') =
     Inl (Error ''Failed to generate story map: Invalid response structure from Gemini API'') \<and>
   jsonMatch ''I cannot help with that.'' = None \<and>
   snd (GeminiService_generateStoryMap bracesOnlyParse (replyWith ''I cannot help with that.'')
          keyedGemini ''a blog'') =
     Inl (Error ''Failed to generate story map: No valid JSON found in Gemini response'')"
proof -
  let ?cands = "\<lambda>content. Arr [Obj [(''content'', Obj [(''parts'', Arr [
                      Obj [(''text'', Str content)]])])]]"
  let ?data = "\<lambda>content. Obj [(''candidates'', ?cands content)]"
  let ?resp = "\<lambda>content. \<lparr>ok = True, status = 200, text' = Inl (TypeError ''body used already''),
          json = Inr (?data content)\<rparr>"
  have m1: "jsonMatch ''Here you are: {} Enjoy.'' = Some ''{}''"
    by (simp add: jsonMatch_def)
  have m2: "jsonMatch ''I cannot help with that.'' = None"
    by (simp add: jsonMatch_def)
  have v: "validateAndTransformResponse (Obj []) =
             Inl (Error ''Invalid response structure from Gemini API'')"
    by (simp add: validateAndTransformResponse_def bindE_def)
  have r: "snd (GeminiService_generateStoryMap bracesOnlyParse (replyWith content) keyedGemini ''a blog'') =
           (case jsonMatch content of
              None \<Rightarrow>
                Inl (Error ''Failed to generate story map: No valid JSON found in Gemini response'')
            | Some m \<Rightarrow>
                (case bracesOnlyParse m of
                   Inl e \<Rightarrow> Inl (Error (''Failed to generate story map: '' @ message e))
                 | Inr v \<Rightarrow>
                     (case validateAndTransformResponse v of
                        Inl e \<Rightarrow> Inl (Error (''Failed to generate story map: '' @ message e))
                      | Inr storyMap \<Rightarrow> Inr storyMap)))"
    if "content \<noteq> []" for content
  proof -
    have "apiKey keyedGemini \<noteq> []" by (simp add: keyedGemini_def)
    moreover have "replyWith content (apiUrl keyedGemini @ ''?key='' @ apiKey keyedGemini) ''a blog'' =
                     Inr (?resp content)"
      by (simp add: replyWith_def)
    moreover have "ok (?resp content)" by simp
    moreover have "json (?resp content) = Inr (?data content)" by simp
    moreover have "getProp (?data content) ''candidates'' = Inr (?cands content)" by simp
    moreover have "responseContent (?cands content) = Str content"
      by (simp add: responseContent_def)
    ultimately show ?thesis
      using that
        reply_extraction [where this = keyedGemini and fetch = "replyWith content"
          and d = "''a blog''" and response = "?resp content" and data = "?data content"
          and candidates = "?cands content" and content = content
          and JSON_parse = bracesOnlyParse]
      by blast
  qed
  have r1: "snd (GeminiService_generateStoryMap bracesOnlyParse (replyWith ''Here you are: {} Enjoy.'')
                   keyedGemini ''a blog'') =
              Inl (Error ''Failed to generate story map: Invalid response structure from Gemini API'')"
    using r [of "''Here you are: {} Enjoy.''"] m1 v by (simp add: bracesOnlyParse_def)
  have r2: "snd (GeminiService_generateStoryMap bracesOnlyParse (replyWith ''I cannot help with that.'')
                   keyedGemini ''a blog'') =
              Inl (Error ''Failed to generate story map: No valid JSON found in Gemini response'')"
    using r [of "''I cannot help with that.''"] m2 by simp
  from m1 r1 m2 r2 show ?thesis by (intro conjI)
qed

text \<open>
  Claim C4, as the specification has it, fails on a reply with two objects: the first
  balanced span of the text is its first object, the code extracts the text from the
  first opening brace to the last closing brace, which is not JSON, and throws.
\<close>

theorem greedy_match_is_not_first_balanced_span:
  "spec_firstBalancedSpan ''{} or {}'' = Some ''{}'' \<and>
   jsonMatch ''{} or {}'' = Some ''{} or {}'' \<and>
   snd (GeminiService_generateStoryMap bracesOnlyParse (replyWith ''{} or {}'') keyedGemini ''a blog'') =
     Inl (Error ''Failed to generate story map: Unexpected token'')"
  by (simp add: jsonMatch_def GeminiService_generateStoryMap_def GeminiService_request_def
        extractStoryMap_def responseContent_def bindE_def replyWith_def keyedGemini_def
        bracesOnlyParse_def)

end
